theory Spec2Isabelle
  imports Main "HOL-Library.Multiset" "HOL-Library.Sublist"
begin

section \<open>JavaScript strings and the built-ins the code calls\<close>

text \<open>
  A JavaScript string is modelled as a \<open>string\<close>, one \<open>char\<close> per code unit: the strings
  of the model are the strings whose code units lie below 256 (Latin-1).
  \<open>String.prototype.toLowerCase\<close> on such a string works code unit by code unit: the
  capital letters (A to Z at 65 to 90, and the accented capitals at 192 to 214 and 216
  to 222) move up by 32, and every other code unit is left alone.
\<close>

definition lower_char :: "char \<Rightarrow> char" where
  "lower_char c =
     (if ((65::nat) \<le> of_char c \<and> of_char c \<le> (90::nat))
         \<or> ((192::nat) \<le> of_char c \<and> of_char c \<le> (214::nat))
         \<or> ((216::nat) \<le> of_char c \<and> of_char c \<le> (222::nat))
      then char_of (of_char c + (32::nat)) else c)"

definition toLowerCase :: "string \<Rightarrow> string" where
  "toLowerCase s = map lower_char s"

text \<open>\<open>s.startsWith(p)\<close> is \<open>prefix p s\<close>. \<open>s.includes(q)\<close>: \<open>q\<close> occurs in \<open>s\<close> at some position.\<close>

fun String_includes :: "string \<Rightarrow> string \<Rightarrow> bool" where
  "String_includes [] q = (q = [])"
| "String_includes (c # s) q = (prefix q (c # s) \<or> String_includes s q)"

text \<open>\<open>Array.prototype.join\<close> on an array of strings.\<close>

fun join :: "string \<Rightarrow> string list \<Rightarrow> string" where
  "join sep [] = []"
| "join sep [x] = x"
| "join sep (x # y # ys) = x @ sep @ join sep (y # ys)"

text \<open>
  An optional string field is a \<open>string option\<close>, \<open>None\<close> standing for \<open>undefined\<close>.
  Both \<open>undefined\<close> and the empty string are falsy; \<open>a || d\<close> with a string \<open>d\<close> on the
  right is \<open>js_or a d\<close>.
\<close>

definition truthy :: "string option \<Rightarrow> bool" where
  "truthy a = (case a of None \<Rightarrow> False | Some s \<Rightarrow> s \<noteq> [])"

definition js_or :: "string option \<Rightarrow> string \<Rightarrow> string" where
  "js_or a d = (case a of None \<Rightarrow> d | Some s \<Rightarrow> if s \<noteq> [] then s else d)"

text \<open>
  A value produced by \<open>JSON.parse\<close>. An object is the list of its own properties in the
  order \<open>Object.values\<close> enumerates them. Only whether a number is zero is ever looked
  at, so numbers are integers here.
\<close>

datatype json =
    JNull
  | JBool bool
  | JNum int
  | JStr string
  | JArr "json list"
  | JObj "(string \<times> json) list"

text \<open>
  The host environment: what \<open>Date\<close> does with a timestamp string, the clock, and the
  locale-dependent renderings. \<open>Date_getTime s\<close> is \<open>new Date(s).getTime()\<close>, with \<open>None\<close>
  for \<open>NaN\<close> (an invalid date). \<open>Date_minusDays t n\<close> is the time value of a date \<open>d\<close> with
  time value \<open>t\<close> after \<open>d.setDate(d.getDate() - n)\<close>, \<open>None\<close> when that leaves the range of
  time values. The renderings take the time value of the date they are called on.
  \<open>JSON_parse\<close> is \<open>JSON.parse\<close>, \<open>None\<close> when it throws a \<open>SyntaxError\<close>. \<open>CACHE_PATH\<close> is
  the constant of that name, which depends on the home directory.
\<close>

record host =
  Date_getTime :: "string \<Rightarrow> int option"
  Date_now :: int
  Date_minusDays :: "int \<Rightarrow> int \<Rightarrow> int option"
  toLocaleString :: "int option \<Rightarrow> string"
  toLocaleTimeString :: "int option \<Rightarrow> string"
  JSON_parse :: "string \<Rightarrow> json option"
  CACHE_PATH :: string

text \<open>
  \<open>Array.prototype.sort(cmp)\<close>: a stable sort. The comparator's result is a number or
  \<open>NaN\<close> (\<open>None\<close>), and \<open>NaN\<close> counts as \<open>+0\<close>. For a consistent comparator the sorted
  array is determined by stability, and stable insertion gives it; for an inconsistent
  one (which needs a \<open>NaN\<close>) the language leaves the order to the implementation, and
  the model picks the order stable insertion produces.
\<close>

definition cmp_sign :: "int option \<Rightarrow> int" where
  "cmp_sign v = (case v of None \<Rightarrow> 0 | Some n \<Rightarrow> n)"

fun insert_cmp :: "('a \<Rightarrow> 'a \<Rightarrow> int option) \<Rightarrow> 'a \<Rightarrow> 'a list \<Rightarrow> 'a list" where
  "insert_cmp cmp x [] = [x]"
| "insert_cmp cmp x (y # ys) =
     (if cmp_sign (cmp x y) \<le> 0 then x # y # ys else y # insert_cmp cmp x ys)"

definition Array_sort :: "('a \<Rightarrow> 'a \<Rightarrow> int option) \<Rightarrow> 'a list \<Rightarrow> 'a list" where
  "Array_sort cmp xs = foldr (insert_cmp cmp) xs []"

text \<open>Subtraction of two numbers either of which may be \<open>NaN\<close>.\<close>

definition num_minus :: "int option \<Rightarrow> int option \<Rightarrow> int option" where
  "num_minus a b =
     (case a of None \<Rightarrow> None | Some x \<Rightarrow> (case b of None \<Rightarrow> None | Some y \<Rightarrow> Some (x - y)))"

section \<open>The data model of \<open>cache.ts\<close>\<close>

record full_name =
  fullName :: "string option"

record person_profile =
  profile_name :: "full_name option"
  avatar :: "string option"

record company =
  company_name :: "string option"

record person_details =
  details_person :: "person_profile option"
  details_company :: "company option"

record person =
  name :: "string option"
  email :: "string option"
  details :: "person_details option"

record people =
  people_title :: "string option"
  creator :: "person option"
  attendees :: "person list option"

record transcript_segment =
  seg_id :: string
  document_id :: string
  start_timestamp :: string
  end_timestamp :: string
  seg_text :: string
  source :: string
  is_final :: bool

record calendar_event =
  event_summary :: "string option"
  event_start :: "string option"
  event_end :: "string option"

record document =
  doc_id :: string
  title :: string
  created_at :: string
  updated_at :: string
  notes_markdown :: "string option"
  notes_plain :: "string option"
  summary :: "string option"
  overview :: "string option"
  doc_people :: "people option"
  status :: "string option"
  doc_type :: "string option"
  google_calendar_event :: "calendar_event option"

text \<open>
  A \<open>Record<string, T>\<close> is an association list of its own properties, in the order
  \<open>Object.values\<close> enumerates them. The accessors guard every level with \<open>?.\<close>, so every
  level is optional.
\<close>

record cache_state =
  documents :: "(string \<times> document) list option"
  transcripts :: "(string \<times> transcript_segment list) list option"

record cache_data =
  state :: "cache_state option"
  version :: int

record granola_cache =
  data :: "cache_data option"

text \<open>
  Reading \<open>m[k]\<close> from such a mapping. The mapping is an object that \<open>JSON.parse\<close> made, so
  its prototype is \<open>Object.prototype\<close>: a key that is not an own property but names a
  property of \<open>Object.prototype\<close> reads that property, a function (for \<open>__proto__\<close> the
  prototype object itself). \<open>Inherited k\<close> stands for that value; \<open>None\<close> is \<open>undefined\<close>.
\<close>

datatype 'a js_value = Value 'a | Inherited string

definition Object_prototype_names :: "string list" where
  "Object_prototype_names =
     [''constructor'', ''__defineGetter__'', ''__defineSetter__'', ''hasOwnProperty'',
      ''__lookupGetter__'', ''__lookupSetter__'', ''isPrototypeOf'', ''propertyIsEnumerable'',
      ''toString'', ''valueOf'', ''__proto__'', ''toLocaleString'']"

definition Record_get :: "(string \<times> 'a) list \<Rightarrow> string \<Rightarrow> 'a js_value option" where
  "Record_get m k =
     (case map_of m k of
        Some v \<Rightarrow> Some (Value v)
      | None \<Rightarrow> if k \<in> set Object_prototype_names then Some (Inherited k) else None)"

text \<open>
  The \<open>length\<close> property of an inherited value: the number of parameters of the
  function, and \<open>undefined\<close> on the prototype object.
\<close>

definition inherited_length :: "string \<Rightarrow> nat option" where
  "inherited_length k =
     (if k = ''__proto__'' then None
      else if k \<in> {''toString'', ''valueOf'', ''toLocaleString''} then Some 0
      else if k \<in> {''__defineGetter__'', ''__defineSetter__''} then Some 2
      else Some 1)"

text \<open>\<open>a.details?.person?.name?.fullName\<close>\<close>

definition resolved_fullName :: "person \<Rightarrow> string option" where
  "resolved_fullName a =
     Option.bind (Option.bind (Option.bind (details a) details_person) profile_name) fullName"

section \<open>The accessors of \<open>GranolaCache\<close>\<close>

definition getDocuments :: "granola_cache \<Rightarrow> document list" where
  "getDocuments c =
     (case Option.bind (Option.bind (data c) state) documents of
        None \<Rightarrow> []
      | Some ds \<Rightarrow> map snd ds)"

definition getDocument :: "granola_cache \<Rightarrow> string \<Rightarrow> document js_value option" where
  "getDocument c i =
     Option.bind (Option.bind (Option.bind (data c) state) documents) (\<lambda>ds. Record_get ds i)"

text \<open>
  \<open>getTranscript\<close> returns what the lookup gives when that is truthy, and an array or an
  inherited value always is; only \<open>undefined\<close> is replaced by the empty array.
\<close>

definition getTranscript ::
  "granola_cache \<Rightarrow> string \<Rightarrow> transcript_segment list js_value" where
  "getTranscript c documentId =
     (case Option.bind (Option.bind (Option.bind (data c) state) transcripts)
             (\<lambda>ts. Record_get ts documentId) of
        None \<Rightarrow> Value []
      | Some v \<Rightarrow> v)"

definition attendees_text :: "document \<Rightarrow> string" where
  "attendees_text doc =
     (case Option.bind (doc_people doc) attendees of
        None \<Rightarrow> []
      | Some as \<Rightarrow>
          toLowerCase (join '' '' (map (\<lambda>a. js_or (resolved_fullName a) (js_or (email a) [])) as)))"

definition searchDocuments :: "granola_cache \<Rightarrow> string \<Rightarrow> document list" where
  "searchDocuments c query =
     (let q = toLowerCase query in
      filter (\<lambda>doc.
        let title' = toLowerCase (title doc);
            notes = (case notes_plain doc of None \<Rightarrow> [] | Some n \<Rightarrow> toLowerCase n);
            attendees' = attendees_text doc
        in String_includes title' q \<or> String_includes notes q \<or> String_includes attendees' q)
      (getDocuments c))"

definition created_time :: "host \<Rightarrow> document \<Rightarrow> int option" where
  "created_time H doc = Date_getTime H (created_at doc)"

definition getRecentDocuments :: "host \<Rightarrow> granola_cache \<Rightarrow> int \<Rightarrow> document list" where
  "getRecentDocuments H c days =
     (let cutoff = Date_minusDays H (Date_now H) days in
      Array_sort (\<lambda>a b. num_minus (created_time H b) (created_time H a))
        (filter (\<lambda>doc.
           case created_time H doc of
             None \<Rightarrow> False
           | Some t \<Rightarrow> (case cutoff of None \<Rightarrow> False | Some k \<Rightarrow> t \<ge> k))
         (getDocuments c)))"

section \<open>The formatters\<close>

definition nl :: string where
  "nl = [CHR 0x0A]"

text \<open>The attendee names of \<open>formatDocument\<close> (the \<open>map\<close> and \<open>filter(Boolean)\<close>).\<close>

definition formatDocument_attendees :: "people \<Rightarrow> string list" where
  "formatDocument_attendees p =
     (case attendees p of
        None \<Rightarrow> []
      | Some as \<Rightarrow>
          filter (\<lambda>s. s \<noteq> [])
            (map (\<lambda>a. js_or (resolved_fullName a) (js_or (email a) ''Unknown'')) as))"

text \<open>The array \<open>lines\<close> of \<open>formatDocument\<close>, each \<open>push\<close> an append.\<close>

definition formatDocument_lines :: "host \<Rightarrow> document \<Rightarrow> bool \<Rightarrow> string list" where
  "formatDocument_lines H doc includeNotes =
     [''# '' @ title doc,
      [],
      ''**ID:** '' @ doc_id doc,
      ''**Date:** '' @ toLocaleString H (created_time H doc)]
     @ (case doc_people doc of
          None \<Rightarrow> []
        | Some p \<Rightarrow>
            (let attendees' = formatDocument_attendees p in
             if length attendees' > 0
             then [''**Participants:** '' @ join '', '' attendees']
             else []))
     @ (case summary doc of
          None \<Rightarrow> []
        | Some s \<Rightarrow> if s \<noteq> [] then [[], ''## Summary'', s] else [])
     @ (case notes_markdown doc of
          None \<Rightarrow> []
        | Some n \<Rightarrow> if includeNotes \<and> n \<noteq> [] then [[], ''## Notes'', n] else [])"

definition formatDocument :: "host \<Rightarrow> document \<Rightarrow> bool \<Rightarrow> string" where
  "formatDocument H doc includeNotes = join nl (formatDocument_lines H doc includeNotes)"

text \<open>
  \<open>formatDocument\<close> on what \<open>getDocument\<close> returned. An inherited value has none of the
  fields read: \<open>title\<close> and \<open>id\<close> print as \<open>undefined\<close>, the date is invalid, and
  \<open>people\<close>, \<open>summary\<close> and \<open>notes_markdown\<close> are absent.
\<close>

definition formatDocument_value :: "host \<Rightarrow> document js_value \<Rightarrow> bool \<Rightarrow> string" where
  "formatDocument_value H v includeNotes =
     (case v of
        Value doc \<Rightarrow> formatDocument H doc includeNotes
      | Inherited k \<Rightarrow>
          join nl [''# undefined'', [], ''**ID:** undefined'',
                   ''**Date:** '' @ toLocaleString H None])"

text \<open>
  \<open>formatTranscript\<close> sorts the array it is given, and \<open>Array.prototype.sort\<close> sorts in
  place. The model returns the string together with the contents of the caller's array
  after the call.
\<close>

definition start_time :: "host \<Rightarrow> transcript_segment \<Rightarrow> int option" where
  "start_time H seg = Date_getTime H (start_timestamp seg)"

definition transcript_line :: "host \<Rightarrow> transcript_segment \<Rightarrow> string" where
  "transcript_line H seg =
     ''['' @ toLocaleTimeString H (start_time H seg) @ ''] '' @ seg_text seg"

definition formatTranscript ::
  "host \<Rightarrow> transcript_segment list \<Rightarrow> string \<times> transcript_segment list" where
  "formatTranscript H segments =
     (if length segments = 0 then (''No transcript available.'', segments)
      else
        (let sorted' = Array_sort (\<lambda>a b. num_minus (start_time H a) (start_time H b)) segments
         in (join nl (map (transcript_line H) sorted'), sorted')))"

text \<open>
  \<open>formatTranscript\<close> on what \<open>getTranscript\<close> returned: the string, or the message of the
  \<open>TypeError\<close> thrown. On an inherited value, \<open>segments.length === 0\<close> holds for a function
  of no parameters, and then the sentence for the empty transcript is returned; on any
  other, \<open>segments.sort\<close> is \<open>undefined\<close> and calling it throws.
\<close>

definition formatTranscript_value ::
  "host \<Rightarrow> transcript_segment list js_value \<Rightarrow> string + string" where
  "formatTranscript_value H v =
     (case v of
        Value segments \<Rightarrow> Inr (fst (formatTranscript H segments))
      | Inherited k \<Rightarrow>
          if inherited_length k = Some 0 then Inr ''No transcript available.''
          else Inl ''TypeError: segments.sort is not a function'')"

section \<open>The commands\<close>

text \<open>
  What a command leaves behind: the \<open>console.log\<close> calls, what is written to the error
  stream (the \<open>console.error\<close> calls, and the message of an error nothing catches) and
  the exit code: \<open>0\<close> when the command returns, the argument of \<open>process.exit\<close> when it
  calls that, \<open>1\<close> when an error nothing catches ends the process.
\<close>

record outcome =
  printed :: "string list"
  errors :: "string list"
  exit_code :: nat

definition dq :: string where
  "dq = [CHR 0x22]"

definition ambiguous_message :: "string \<Rightarrow> document list \<Rightarrow> string" where
  "ambiguous_message i matches =
     ''Multiple meetings match '' @ dq @ i @ dq @ ''. Be more specific:'' @ nl
     @ join nl (map (\<lambda>m. ''  '' @ take 12 (doc_id m) @ '' - '' @ title m) matches)"

text \<open>
  The first part of \<open>showMeeting\<close>, up to the point where \<open>doc\<close> is known to be truthy:
  \<open>Inl\<close> is the outcome of the \<open>process.exit(1)\<close> taken, \<open>Inr\<close> the value of \<open>doc\<close>.
\<close>

definition showMeeting_lookup ::
  "granola_cache \<Rightarrow> string \<Rightarrow> outcome + document js_value" where
  "showMeeting_lookup c i =
     (let doc =
        (if length i < 36 then
           (let docs = getDocuments c;
                matches = filter (\<lambda>d. prefix i (doc_id d)) docs
            in if length matches = 1 then Inr (Some (Value (matches ! 0)))
               else if length matches > 1
               then Inl \<lparr>printed = [], errors = [ambiguous_message i matches], exit_code = 1\<rparr>
               else Inr None)
         else Inr (getDocument c i))
      in case doc of
           Inl e \<Rightarrow> Inl e
         | Inr None \<Rightarrow>
             Inl \<lparr>printed = [], errors = [''Meeting not found: '' @ i], exit_code = 1\<rparr>
         | Inr (Some d) \<Rightarrow> Inr d)"

text \<open>\<open>doc.id\<close> as a property key: \<open>undefined\<close> is the key \<open>undefined\<close>.\<close>

definition id_key :: "document js_value \<Rightarrow> string" where
  "id_key v = (case v of Value doc \<Rightarrow> doc_id doc | Inherited k \<Rightarrow> ''undefined'')"

definition showMeeting :: "host \<Rightarrow> granola_cache \<Rightarrow> string \<Rightarrow> bool \<Rightarrow> outcome" where
  "showMeeting H c i includeTranscript =
     (case showMeeting_lookup c i of
        Inl e \<Rightarrow> e
      | Inr doc \<Rightarrow>
          if includeTranscript then
            (let transcript = getTranscript c (id_key doc) in
             case formatTranscript_value H transcript of
               Inr s \<Rightarrow>
                 \<lparr>printed = [formatDocument_value H doc True, nl @ ''## Transcript'' @ nl, s],
                  errors = [],
                  exit_code = 0\<rparr>
             | Inl thrown \<Rightarrow>
                 \<lparr>printed = [formatDocument_value H doc True, nl @ ''## Transcript'' @ nl],
                  errors = [thrown],
                  exit_code = 1\<rparr>)
          else
            \<lparr>printed = [formatDocument_value H doc True], errors = [], exit_code = 0\<rparr>)"

text \<open>
  The first part of \<open>exportMeeting\<close>, the same lines again; what follows them builds the
  markdown file from the document found.
\<close>

definition exportMeeting_lookup ::
  "granola_cache \<Rightarrow> string \<Rightarrow> outcome + document js_value" where
  "exportMeeting_lookup c i =
     (let doc =
        (if length i < 36 then
           (let docs = getDocuments c;
                matches = filter (\<lambda>d. prefix i (doc_id d)) docs
            in if length matches = 1 then Inr (Some (Value (matches ! 0)))
               else if length matches > 1
               then Inl \<lparr>printed = [], errors = [ambiguous_message i matches], exit_code = 1\<rparr>
               else Inr None)
         else Inr (getDocument c i))
      in case doc of
           Inl e \<Rightarrow> Inl e
         | Inr None \<Rightarrow>
             Inl \<lparr>printed = [], errors = [''Meeting not found: '' @ i], exit_code = 1\<rparr>
         | Inr (Some d) \<Rightarrow> Inr d)"

section \<open>The command line\<close>

datatype flag_value = FTrue | FStr string

record parsed =
  command :: string
  positional :: "string list"
  flags :: "string \<rightharpoonup> flag_value"

text \<open>The loop of \<open>parseArgs\<close>; the \<open>i++\<close> in its body skips the value a flag has taken.\<close>

fun parseArgs_loop :: "string list \<Rightarrow> parsed \<Rightarrow> parsed" where
  "parseArgs_loop [] st = st"
| "parseArgs_loop (arg # rest) st =
     (if command st = [] \<and> \<not> prefix ''-'' arg
      then parseArgs_loop rest (st\<lparr>command := arg\<rparr>)
      else if prefix ''--'' arg then
        (let key = drop 2 arg in
         case rest of
           [] \<Rightarrow> parseArgs_loop rest (st\<lparr>flags := (flags st)(key \<mapsto> FTrue)\<rparr>)
         | next' # rest' \<Rightarrow>
             if next' \<noteq> [] \<and> \<not> prefix ''-'' next'
             then parseArgs_loop rest' (st\<lparr>flags := (flags st)(key \<mapsto> FStr next')\<rparr>)
             else parseArgs_loop rest (st\<lparr>flags := (flags st)(key \<mapsto> FTrue)\<rparr>))
      else if \<not> prefix ''-'' arg
      then parseArgs_loop rest (st\<lparr>positional := positional st @ [arg]\<rparr>)
      else parseArgs_loop rest st)"

definition parseArgs :: "string list \<Rightarrow> parsed" where
  "parseArgs args = parseArgs_loop args \<lparr>command = [], positional = [], flags = Map.empty\<rparr>"

text \<open>
  \<open>parseInt(s)\<close> with no radix: leading white space is skipped, a sign is read, a \<open>0x\<close>
  prefix selects base 16, and the longest run of digits is the value; no digit at all
  gives \<open>NaN\<close> (\<open>None\<close>). The value is kept exact, and \<open>-0\<close> is \<open>0\<close>: both are falsy.
\<close>

definition is_space :: "char \<Rightarrow> bool" where
  "is_space c = ((of_char c :: nat) \<in> {9, 10, 11, 12, 13, 32, 160})"

definition digit_val :: "nat \<Rightarrow> char \<Rightarrow> nat option" where
  "digit_val r c =
     (let n = (of_char c :: nat);
          v = (if 48 \<le> n \<and> n \<le> 57 then Some (n - 48)
               else if 97 \<le> n \<and> n \<le> 122 then Some (n - 87)
               else if 65 \<le> n \<and> n \<le> 90 then Some (n - 55)
               else None)
      in case v of None \<Rightarrow> None | Some d \<Rightarrow> if d < r then Some d else None)"

fun digits_value :: "nat \<Rightarrow> string \<Rightarrow> nat \<Rightarrow> nat" where
  "digits_value r [] acc = acc"
| "digits_value r (c # cs) acc =
     (case digit_val r c of None \<Rightarrow> acc | Some d \<Rightarrow> digits_value r cs (acc * r + d))"

definition parseInt :: "string \<Rightarrow> int option" where
  "parseInt inputString =
     (let s = dropWhile is_space inputString;
          sign = (if prefix ''-'' s then - 1 else (1::int));
          s1 = (if prefix ''-'' s \<or> prefix ''+'' s then drop 1 s else s);
          hex = (prefix ''0x'' s1 \<or> prefix ''0X'' s1);
          r = (if hex then 16 else (10::nat));
          s2 = (if hex then drop 2 s1 else s1)
      in case s2 of
           [] \<Rightarrow> None
         | c # cs \<Rightarrow>
             (case digit_val r c of
                None \<Rightarrow> None
              | Some d \<Rightarrow> Some (sign * int (digits_value r s2 0))))"

text \<open>\<open>ToString\<close> of a flag's value, which \<open>parseInt\<close> applies to its argument.\<close>

definition flag_ToString :: "flag_value option \<Rightarrow> string" where
  "flag_ToString v =
     (case v of None \<Rightarrow> ''undefined'' | Some FTrue \<Rightarrow> ''true'' | Some (FStr s) \<Rightarrow> s)"

definition flag_truthy :: "flag_value option \<Rightarrow> bool" where
  "flag_truthy v = (case v of None \<Rightarrow> False | Some FTrue \<Rightarrow> True | Some (FStr s) \<Rightarrow> s \<noteq> [])"

text \<open>
  What \<open>main\<close> does with an argument vector: the exit it takes or the command function it
  calls, with the arguments it passes. Its second argument is the result of
  \<open>new GranolaCache()\<close>: \<open>None\<close> when the constructor returns, the message when it throws.
\<close>

datatype action =
    PrintUsage
  | LoadFailed string
  | CallListMeetings int
  | CallShowMeeting string bool
  | CallSearchMeetings string
  | CallExportMeeting string flag_value
  | UsageError string
  | UnknownCommand string

definition main :: "string list \<Rightarrow> string option \<Rightarrow> action" where
  "main args thrown =
     (let p = parseArgs args in
      if command p = [] \<or> flag_truthy (flags p ''help'') then PrintUsage
      else case thrown of
        Some msg \<Rightarrow> LoadFailed (''Error: '' @ msg)
      | None \<Rightarrow>
          if command p = ''list'' then
            CallListMeetings
              (case parseInt (flag_ToString (flags p ''days'')) of
                 None \<Rightarrow> 7
               | Some n \<Rightarrow> if n = 0 then 7 else n)
          else if command p = ''show'' then
            (case positional p of
               [] \<Rightarrow> UsageError ''Usage: granola show <meeting-id> [--transcript]''
             | a # _ \<Rightarrow>
                 if a = [] then UsageError ''Usage: granola show <meeting-id> [--transcript]''
                 else CallShowMeeting a (flag_truthy (flags p ''transcript'')))
          else if command p = ''search'' then
            (case positional p of
               [] \<Rightarrow> UsageError ''Usage: granola search <query>''
             | a # _ \<Rightarrow>
                 if a = [] then UsageError ''Usage: granola search <query>''
                 else CallSearchMeetings (join '' '' (positional p)))
          else if command p = ''export'' then
            (case positional p of
               [] \<Rightarrow> UsageError ''Usage: granola export <meeting-id> [--output DIR]''
             | a # _ \<Rightarrow>
                 if a = [] then UsageError ''Usage: granola export <meeting-id> [--output DIR]''
                 else CallExportMeeting a
                        (case flags p ''output'' of
                           None \<Rightarrow> FStr ''./granola-exports''
                         | Some FTrue \<Rightarrow> FTrue
                         | Some (FStr s) \<Rightarrow> if s \<noteq> [] then FStr s else FStr ''./granola-exports''))
          else UnknownCommand (''Unknown command: '' @ command p))"

section \<open>The loader\<close>

text \<open>
  The constructor assigns what \<open>JSON.parse\<close> returns to \<open>this.data\<close> unchecked, so at
  this level the cache is a JSON value of any shape. \<open>js_get v k\<close> reads the property \<open>k\<close>
  of a value other than \<open>null\<close>: an own property of an object, and \<open>undefined\<close> (\<open>None\<close>)
  on a number, boolean, string or array for each of the names read here (\<open>cache\<close>,
  \<open>state\<close>, \<open>documents\<close>). Reading a property of \<open>null\<close> throws a \<open>TypeError\<close>; behind \<open>?.\<close>
  it gives \<open>undefined\<close>.
\<close>

datatype load_error = CacheNotFound string | SyntaxError | TypeError

definition js_get :: "json \<Rightarrow> string \<Rightarrow> json option" where
  "js_get v k = (case v of JObj kvs \<Rightarrow> map_of kvs k | _ \<Rightarrow> None)"

definition opt_get :: "json option \<Rightarrow> string \<Rightarrow> json option" where
  "opt_get v k = (case v of None \<Rightarrow> None | Some JNull \<Rightarrow> None | Some x \<Rightarrow> js_get x k)"

definition json_truthy :: "json option \<Rightarrow> bool" where
  "json_truthy v =
     (case v of
        None \<Rightarrow> False
      | Some JNull \<Rightarrow> False
      | Some (JBool b) \<Rightarrow> b
      | Some (JNum n) \<Rightarrow> n \<noteq> 0
      | Some (JStr s) \<Rightarrow> s \<noteq> []
      | Some (JArr xs) \<Rightarrow> True
      | Some (JObj kvs) \<Rightarrow> True)"

text \<open>\<open>Object.values\<close> of a value other than \<open>null\<close>.\<close>

definition Object_values :: "json \<Rightarrow> json list" where
  "Object_values v =
     (case v of
        JObj kvs \<Rightarrow> map snd kvs
      | JArr xs \<Rightarrow> xs
      | JStr s \<Rightarrow> map (\<lambda>c. JStr [c]) s
      | _ \<Rightarrow> [])"

text \<open>The constructor from \<open>outer\<close> on: the value it stores in \<open>this.data\<close>, or what it throws.\<close>

definition GranolaCache_data :: "host \<Rightarrow> json \<Rightarrow> load_error + json" where
  "GranolaCache_data H outer =
     (case outer of
        JNull \<Rightarrow> Inl TypeError
      | _ \<Rightarrow>
          (case js_get outer ''cache'' of
             Some (JStr s) \<Rightarrow>
               (case JSON_parse H s of None \<Rightarrow> Inl SyntaxError | Some v \<Rightarrow> Inr v)
           | Some v \<Rightarrow> Inr (if json_truthy (Some v) then v else outer)
           | None \<Rightarrow> Inr outer))"

text \<open>The whole constructor, over a file system that maps a path to the file's text.\<close>

definition GranolaCache_new ::
  "host \<Rightarrow> (string \<rightharpoonup> string) \<Rightarrow> string option \<Rightarrow> load_error + json" where
  "GranolaCache_new H fs customPath =
     (let cachePath = js_or customPath (CACHE_PATH H) in
      case fs cachePath of
        None \<Rightarrow>
          Inl (CacheNotFound
                 (''Granola cache not found at '' @ cachePath @ ''. Is Granola installed?''))
      | Some raw \<Rightarrow>
          (case JSON_parse H raw of
             None \<Rightarrow> Inl SyntaxError
           | Some outer \<Rightarrow> GranolaCache_data H outer))"

text \<open>\<open>getDocuments\<close> on the value the constructor stored.\<close>

definition getDocuments_json :: "json \<Rightarrow> json list" where
  "getDocuments_json d =
     (let docs = opt_get (opt_get (Some d) ''state'') ''documents'' in
      case docs of
        None \<Rightarrow> []
      | Some v \<Rightarrow> if json_truthy docs then Object_values v else [])"

section \<open>Notions used to state the properties\<close>

text \<open>The time value of an item whose timestamp parses, as a plain integer.\<close>

definition time_key :: "('a \<Rightarrow> int option) \<Rightarrow> 'a \<Rightarrow> int" where
  "time_key tm x = (case tm x of None \<Rightarrow> 0 | Some t \<Rightarrow> t)"





text \<open>
  The participant list as the specification words it: the resolved full name, else the
  email, and an attendee with neither left out.
\<close>

definition spec_participants :: "people \<Rightarrow> string list" where
  "spec_participants p =
     (case attendees p of
        None \<Rightarrow> []
      | Some as \<Rightarrow>
          concat (map (\<lambda>a. case resolved_fullName a of
                             Some n \<Rightarrow> [n]
                           | None \<Rightarrow> (case email a of Some e \<Rightarrow> [e] | None \<Rightarrow> [])) as))"

section \<open>Example data\<close>

definition example_host :: host where
  "example_host =
     \<lparr>Date_getTime =
        map_of [(''2025-12-01T08:00:00Z'', 1764576000000),
                (''2026-01-03T15:00:00Z'', 1767452400000),
                (''2026-01-05T10:00:00Z'', 1767607200000),
                (''2026-01-06T09:30:00Z'', 1767691800000),
                (''2026-01-06T09:30:05Z'', 1767691805000),
                (''2026-01-10T08:00:00Z'', 1768032000000)],
      Date_now = 1767787200000,
      Date_minusDays = (\<lambda>t n. Some (t - n * 86400000)),
      toLocaleString =
        (\<lambda>t. case t of
               None \<Rightarrow> ''Invalid Date''
             | Some n \<Rightarrow>
                 (case map_of [(1767452400000, ''1/3/2026, 3:00:00 PM''),
                               (1767607200000, ''1/5/2026, 10:00:00 AM'')] n of
                    None \<Rightarrow> ''some date''
                  | Some r \<Rightarrow> r)),
      toLocaleTimeString =
        (\<lambda>t. case t of
               None \<Rightarrow> ''Invalid Date''
             | Some n \<Rightarrow>
                 (case map_of [(1767691800000, ''9:30:00 AM''),
                               (1767691805000, ''9:30:05 AM'')] n of
                    None \<Rightarrow> ''some time''
                  | Some r \<Rightarrow> r)),
      JSON_parse = map_of [(''{}'', JObj []), (''null'', JNull)],
      CACHE_PATH = ''/Users/me/Library/Application Support/Granola/cache-v3.json''\<rparr>"

definition example_doc :: "string \<Rightarrow> string \<Rightarrow> string \<Rightarrow> document" where
  "example_doc i t c =
     \<lparr>doc_id = i, title = t, created_at = c, updated_at = c,
      notes_markdown = None, notes_plain = None, summary = None, overview = None,
      doc_people = None, status = None, doc_type = None, google_calendar_event = None\<rparr>"

definition example_segment :: "string \<Rightarrow> string \<Rightarrow> string \<Rightarrow> transcript_segment" where
  "example_segment i t x =
     \<lparr>seg_id = i, document_id = ''abc12345-0000-4000-8000-000000000001'',
      start_timestamp = t, end_timestamp = t, seg_text = x,
      source = ''microphone'', is_final = True\<rparr>"

definition example_person :: "string option \<Rightarrow> string option \<Rightarrow> person" where
  "example_person n e =
     \<lparr>name = None, email = e,
      details = Some \<lparr>details_person =
                        Some \<lparr>profile_name = Some \<lparr>fullName = n\<rparr>, avatar = None\<rparr>,
                      details_company = None\<rparr>\<rparr>"

definition example_cache ::
  "document list \<Rightarrow> (string \<times> transcript_segment list) list \<Rightarrow> granola_cache" where
  "example_cache ds ts =
     \<lparr>data = Some \<lparr>state = Some \<lparr>documents = Some (map (\<lambda>d. (doc_id d, d)) ds),
                                    transcripts = Some ts\<rparr>,
                    version = 3\<rparr>\<rparr>"

definition example_docs :: "document list" where
  "example_docs =
     [example_doc ''abc12345-0000-4000-8000-000000000001'' ''Weekly Sync'' ''2026-01-05T10:00:00Z'',
      example_doc ''abc99999-0000-4000-8000-000000000002'' ''Roadmap Review'' ''2026-01-06T09:30:00Z'']"

definition example_people :: people where
  "example_people =
     \<lparr>people_title = None, creator = None,
      attendees = Some [example_person (Some ''Ada Lovelace'') (Some ''ada@example.com''),
                        example_person None (Some ''bob@example.com''),
                        example_person None None]\<rparr>"

definition example_segments :: "transcript_segment list" where
  "example_segments =
     [example_segment ''s2'' ''2026-01-06T09:30:05Z'' ''Shall we start?'',
      example_segment ''s1'' ''2026-01-06T09:30:00Z'' ''Hello'',
      example_segment ''s3'' ''2026-01-06T09:30:00Z'' ''Hi there'']"

definition example_recent_docs :: "document list" where
  "example_recent_docs =
     [example_doc ''abc00000-0000-4000-8000-000000000000'' ''Kickoff'' ''2025-12-01T08:00:00Z'',
      example_doc ''abc12345-0000-4000-8000-000000000001'' ''Weekly Sync'' ''2026-01-05T10:00:00Z'',
      example_doc ''abc55555-0000-4000-8000-000000000005'' ''Planning'' ''2026-01-10T08:00:00Z'',
      example_doc ''abc66666-0000-4000-8000-000000000006'' ''Standup'' ''2026-01-05T10:00:00Z'',
      example_doc ''abc77777-0000-4000-8000-000000000007'' ''Broken'' ''yesterday'']"


definition constructor_doc :: document where
  "constructor_doc = example_doc ''constructor'' ''Odd'' ''2026-01-05T10:00:00Z''"

section \<open>Facts shared by the proofs\<close>


lemma String_includes_Nil: "String_includes s []"
  by (cases s) simp_all




lemma mset_insert_cmp: "mset (insert_cmp cmp x xs) = add_mset x (mset xs)"
  by (induction xs) simp_all

lemma mset_Array_sort: "mset (Array_sort cmp xs) = mset xs"
  unfolding Array_sort_def by (induction xs) (simp_all add: mset_insert_cmp)

lemma insert_cmp_asc:
  "tm x \<noteq> None \<Longrightarrow> \<forall>y\<in>set xs. tm y \<noteq> None \<Longrightarrow>
   insert_cmp (\<lambda>a b. num_minus (tm a) (tm b)) x xs = insort_key (time_key tm) x xs"
  by (induction xs) (auto simp: num_minus_def cmp_sign_def time_key_def)

lemma Array_sort_asc:
  "\<forall>y\<in>set xs. tm y \<noteq> None \<Longrightarrow>
   Array_sort (\<lambda>a b. num_minus (tm a) (tm b)) xs = sort_key (time_key tm) xs"
proof (induction xs)
  case Nil
  show ?case by (simp add: Array_sort_def)
next
  case (Cons x xs)
  have tail: "Array_sort (\<lambda>a b. num_minus (tm a) (tm b)) xs = sort_key (time_key tm) xs"
    using Cons by simp
  have "Array_sort (\<lambda>a b. num_minus (tm a) (tm b)) (x # xs)
        = insert_cmp (\<lambda>a b. num_minus (tm a) (tm b)) x (sort_key (time_key tm) xs)"
    using tail by (simp add: Array_sort_def)
  also have "\<dots> = insort_key (time_key tm) x (sort_key (time_key tm) xs)"
    using Cons.prems by (intro insert_cmp_asc) simp_all
  finally show ?case by simp
qed

lemma insert_cmp_desc:
  "tm x \<noteq> None \<Longrightarrow> \<forall>y\<in>set xs. tm y \<noteq> None \<Longrightarrow>
   insert_cmp (\<lambda>a b. num_minus (tm b) (tm a)) x xs = insort_key (\<lambda>d. - time_key tm d) x xs"
  by (induction xs) (auto simp: num_minus_def cmp_sign_def time_key_def)

lemma Array_sort_desc:
  "\<forall>y\<in>set xs. tm y \<noteq> None \<Longrightarrow>
   Array_sort (\<lambda>a b. num_minus (tm b) (tm a)) xs = sort_key (\<lambda>d. - time_key tm d) xs"
proof (induction xs)
  case Nil
  show ?case by (simp add: Array_sort_def)
next
  case (Cons x xs)
  have tail: "Array_sort (\<lambda>a b. num_minus (tm b) (tm a)) xs = sort_key (\<lambda>d. - time_key tm d) xs"
    using Cons by simp
  have "Array_sort (\<lambda>a b. num_minus (tm b) (tm a)) (x # xs)
        = insert_cmp (\<lambda>a b. num_minus (tm b) (tm a)) x (sort_key (\<lambda>d. - time_key tm d) xs)"
    using tail by (simp add: Array_sort_def)
  also have "\<dots> = insort_key (\<lambda>d. - time_key tm d) x (sort_key (\<lambda>d. - time_key tm d) xs)"
    using Cons.prems by (intro insert_cmp_desc) simp_all
  finally show ?case by simp
qed

lemma sort_key_fixed: "sort_key f xs = xs \<longleftrightarrow> sorted (map f xs)"
proof
  assume "sort_key f xs = xs"
  then have "sorted (map f xs) = sorted (map f (sort_key f xs))" by simp
  then show "sorted (map f xs)" by (simp only: sorted_sort_key)
next
  assume "sorted (map f xs)"
  then show "sort_key f xs = xs" by (rule sort_key_id_if_sorted)
qed

lemma map_insort_key: "map g (insort_key (\<lambda>x. f (g x)) x xs) = insort_key f (g x) (map g xs)"
  by (induction xs) simp_all

lemma map_sort_key: "map g (sort_key (\<lambda>x. f (g x)) xs) = sort_key f (map g xs)"
  by (induction xs) (simp_all add: map_insort_key)

lemma sort_key_perm_eq:
  assumes "mset xs = mset ys" and "inj_on f (set xs)"
  shows "sort_key f xs = sort_key f ys"
proof (rule sort_key_inj_key_eq)
  show "mset xs = mset (sort_key f ys)" using assms(1) by simp
  show "inj_on f (set xs)" by (rule assms(2))
  show "sorted (map f (sort_key f ys))" by (rule sorted_sort_key)
qed

lemma map_sort_key_perm:
  assumes perm: "mset xs = mset ys"
    and ties: "\<And>a b. a \<in> set xs \<Longrightarrow> b \<in> set xs \<Longrightarrow> k a = k b \<Longrightarrow> l a = l b"
  shows "map l (sort_key k xs) = map l (sort_key k ys)"
proof -
  define g where "g = (\<lambda>x. (k x, l x))"
  have inj: "inj_on fst (set (map g xs))"
  proof (rule inj_onI)
    fix p q assume p: "p \<in> set (map g xs)" and q: "q \<in> set (map g xs)" and e: "fst p = fst q"
    from p obtain a where a: "a \<in> set xs" "p = g a" by auto
    from q obtain b where b: "b \<in> set xs" "q = g b" by auto
    from e a b have "k a = k b" by (simp add: g_def)
    then have "l a = l b" using a(1) b(1) by (rule ties[rotated 2])
    then show "p = q" using a b \<open>k a = k b\<close> by (simp add: g_def)
  qed
  have "mset (map g xs) = mset (map g ys)"
    using perm by simp
  then have eq: "sort_key fst (map g xs) = sort_key fst (map g ys)"
    using inj by (rule sort_key_perm_eq)
  have kg: "k = (\<lambda>x. fst (g x))" by (simp add: g_def)
  have m: "map g (sort_key k zs) = sort_key fst (map g zs)" for zs
    unfolding kg by (rule map_sort_key)
  have "map l (sort_key k zs) = map snd (map g (sort_key k zs))" for zs
    by (simp add: g_def comp_def)
  then show ?thesis using m eq by simp
qed

lemma formatTranscript_sorted:
  assumes "\<forall>s\<in>set segs. start_time H s \<noteq> None"
  shows "formatTranscript H segs =
    (if segs = [] then (''No transcript available.'', [])
     else (join nl (map (transcript_line H) (sort_key (time_key (start_time H)) segs)),
           sort_key (time_key (start_time H)) segs))"
  using Array_sort_asc [OF assms] by (simp add: formatTranscript_def Let_def)

lemma prototype_name_short: "k \<in> set Object_prototype_names \<Longrightarrow> length k \<le> 20"
  by (auto simp: Object_prototype_names_def)

lemma Record_get_long:
  assumes "36 \<le> length k"
  shows "Record_get m k = map_option Value (map_of m k)"
proof -
  have "k \<notin> set Object_prototype_names"
    using assms prototype_name_short [of k] by auto
  then show ?thesis by (simp add: Record_get_def split: option.split)
qed

lemma Record_get_absent:
  "map_of m k = None \<Longrightarrow> k \<notin> set Object_prototype_names \<Longrightarrow> Record_get m k = None"
  by (simp add: Record_get_def)

lemma Record_get_inherited:
  "map_of m k = None \<Longrightarrow> k \<in> set Object_prototype_names \<Longrightarrow> Record_get m k = Some (Inherited k)"
  by (simp add: Record_get_def)

section \<open>Resolving an identifier in \<open>show\<close> and \<open>export\<close>\<close>

lemma lookup_same: "exportMeeting_lookup c i = showMeeting_lookup c i"
  by (simp only: showMeeting_lookup_def exportMeeting_lookup_def)

lemma lookup_unique:
  assumes "length i < 36" and "filter (\<lambda>d. prefix i (doc_id d)) (getDocuments c) = [d]"
  shows "showMeeting_lookup c i = Inr (Value d)"
  using assms by (simp add: showMeeting_lookup_def Let_def)

lemma lookup_ambiguous:
  assumes "length i < 36" and "length (filter (\<lambda>d. prefix i (doc_id d)) (getDocuments c)) > 1"
  shows "showMeeting_lookup c i =
           Inl \<lparr>printed = [],
                errors = [ambiguous_message i (filter (\<lambda>d. prefix i (doc_id d)) (getDocuments c))],
                exit_code = 1\<rparr>"
  using assms by (simp add: showMeeting_lookup_def Let_def)

lemma getDocument_long_id:
  assumes "36 \<le> length i"
  shows "getDocument c i \<noteq> Some (Inherited k)"
proof -
  have "Record_get ds i \<noteq> Some (Inherited k)" for ds :: "(string \<times> document) list"
    by (simp add: Record_get_long [OF assms] split: option.split)
  then show ?thesis
    by (auto simp: getDocument_def split: Option.bind_splits)
qed

lemma lookup_exact:
  assumes "36 \<le> length i"
  shows "showMeeting_lookup c i =
        (case getDocument c i of
           None \<Rightarrow> Inl \<lparr>printed = [], errors = [''Meeting not found: '' @ i], exit_code = 1\<rparr>
         | Some d' \<Rightarrow> Inr d')"
  using assms by (simp add: showMeeting_lookup_def Let_def split: option.split)

text \<open>
  C1. In \<open>showMeeting\<close> and \<open>exportMeeting\<close> alike, an identifier shorter than 36
  characters is a prefix: when exactly one document's \<open>id\<close> starts with it, that document
  is the one used; when more than one does, the command writes one error naming every
  candidate (the first 12 characters of its \<open>id\<close> and its title), prints nothing else
  and exits with code 1. An identifier of 36 characters or more is looked up as a key of
  the documents mapping and nowhere else: a miss is "Meeting not found", whatever
  identifiers start with it. (No property of \<open>Object.prototype\<close> has a name that long, so
  the lookup gives a document of the mapping or nothing.)
\<close>

theorem prefix_resolution:
  "(length i < 36 \<and> filter (\<lambda>d. prefix i (doc_id d)) (getDocuments c) = [d] \<longrightarrow>
      showMeeting_lookup c i = Inr (Value d) \<and> exportMeeting_lookup c i = Inr (Value d))
   \<and> (length i < 36 \<and> length (filter (\<lambda>d. prefix i (doc_id d)) (getDocuments c)) > 1 \<longrightarrow>
      showMeeting_lookup c i =
        Inl \<lparr>printed = [],
             errors = [''Multiple meetings match '' @ dq @ i @ dq @ ''. Be more specific:'' @ nl
                       @ join nl (map (\<lambda>m. ''  '' @ take 12 (doc_id m) @ '' - '' @ title m)
                                    (filter (\<lambda>d. prefix i (doc_id d)) (getDocuments c)))],
             exit_code = 1\<rparr>
      \<and> exportMeeting_lookup c i = showMeeting_lookup c i
      \<and> showMeeting H c i t =
        \<lparr>printed = [],
         errors = [''Multiple meetings match '' @ dq @ i @ dq @ ''. Be more specific:'' @ nl
                   @ join nl (map (\<lambda>m. ''  '' @ take 12 (doc_id m) @ '' - '' @ title m)
                                (filter (\<lambda>d. prefix i (doc_id d)) (getDocuments c)))],
         exit_code = 1\<rparr>)
   \<and> (36 \<le> length i \<longrightarrow>
      showMeeting_lookup c i =
        (case getDocument c i of
           None \<Rightarrow> Inl \<lparr>printed = [], errors = [''Meeting not found: '' @ i], exit_code = 1\<rparr>
         | Some d' \<Rightarrow> Inr d')
      \<and> (\<forall>k. getDocument c i \<noteq> Some (Inherited k))
      \<and> exportMeeting_lookup c i = showMeeting_lookup c i)"
proof (intro conjI impI allI)
  assume a: "length i < 36 \<and> filter (\<lambda>d. prefix i (doc_id d)) (getDocuments c) = [d]"
  then show "showMeeting_lookup c i = Inr (Value d)" by (simp only: lookup_unique)
  with a show "exportMeeting_lookup c i = Inr (Value d)" by (simp only: lookup_same)
next
  assume a: "length i < 36 \<and> 1 < length (filter (\<lambda>d. prefix i (doc_id d)) (getDocuments c))"
  then have l: "showMeeting_lookup c i =
           Inl \<lparr>printed = [],
                errors = [ambiguous_message i (filter (\<lambda>d. prefix i (doc_id d)) (getDocuments c))],
                exit_code = 1\<rparr>"
    by (simp only: lookup_ambiguous)
  then show "showMeeting_lookup c i =
        Inl \<lparr>printed = [],
             errors = [''Multiple meetings match '' @ dq @ i @ dq @ ''. Be more specific:'' @ nl
                       @ join nl (map (\<lambda>m. ''  '' @ take 12 (doc_id m) @ '' - '' @ title m)
                                    (filter (\<lambda>d. prefix i (doc_id d)) (getDocuments c)))],
             exit_code = 1\<rparr>"
    by (simp only: ambiguous_message_def append_assoc)
  show "exportMeeting_lookup c i = showMeeting_lookup c i" by (rule lookup_same)
  have "showMeeting H c i t =
          \<lparr>printed = [],
           errors = [ambiguous_message i (filter (\<lambda>d. prefix i (doc_id d)) (getDocuments c))],
           exit_code = 1\<rparr>"
    unfolding showMeeting_def l by simp
  then show "showMeeting H c i t =
        \<lparr>printed = [],
         errors = [''Multiple meetings match '' @ dq @ i @ dq @ ''. Be more specific:'' @ nl
                   @ join nl (map (\<lambda>m. ''  '' @ take 12 (doc_id m) @ '' - '' @ title m)
                                (filter (\<lambda>d. prefix i (doc_id d)) (getDocuments c)))],
         exit_code = 1\<rparr>"
    by (simp only: ambiguous_message_def append_assoc)
next
  assume "36 \<le> length i"
  then show "showMeeting_lookup c i =
        (case getDocument c i of
           None \<Rightarrow> Inl \<lparr>printed = [], errors = [''Meeting not found: '' @ i], exit_code = 1\<rparr>
         | Some d' \<Rightarrow> Inr d')"
    by (rule lookup_exact)
  show "exportMeeting_lookup c i = showMeeting_lookup c i" by (rule lookup_same)
next
  fix k
  assume "36 \<le> length i"
  then show "getDocument c i \<noteq> Some (Inherited k)" by (rule getDocument_long_id)
qed

theorem prefix_resolution_witness:
  "showMeeting_lookup (example_cache example_docs []) ''abc1''
     = Inr (Value (example_doc ''abc12345-0000-4000-8000-000000000001'' ''Weekly Sync''
                     ''2026-01-05T10:00:00Z''))
   \<and> exportMeeting_lookup (example_cache example_docs []) ''abc1''
     = Inr (Value (example_doc ''abc12345-0000-4000-8000-000000000001'' ''Weekly Sync''
                     ''2026-01-05T10:00:00Z''))
   \<and> showMeeting example_host (example_cache example_docs []) ''abc'' True
     = \<lparr>printed = [],
        errors = [''Multiple meetings match '' @ dq @ ''abc'' @ dq @ ''. Be more specific:'' @ nl
                  @ ''  abc12345-000 - Weekly Sync'' @ nl
                  @ ''  abc99999-000 - Roadmap Review''],
        exit_code = 1\<rparr>
   \<and> exportMeeting_lookup (example_cache example_docs []) ''abc''
     = Inl \<lparr>printed = [],
            errors = [''Multiple meetings match '' @ dq @ ''abc'' @ dq @ ''. Be more specific:'' @ nl
                      @ ''  abc12345-000 - Weekly Sync'' @ nl
                      @ ''  abc99999-000 - Roadmap Review''],
            exit_code = 1\<rparr>
   \<and> showMeeting_lookup (example_cache example_docs []) ''abc12345-0000-4000-8000-000000000001''
     = Inr (Value (example_doc ''abc12345-0000-4000-8000-000000000001'' ''Weekly Sync''
                     ''2026-01-05T10:00:00Z''))
   \<and> exportMeeting_lookup
         (example_cache
            [example_doc ''abc12345-0000-4000-8000-000000000001-copy'' ''Weekly Sync''
               ''2026-01-05T10:00:00Z''] [])
         ''abc12345-0000-4000-8000-000000000001''
     = Inl \<lparr>printed = [],
            errors = [''Meeting not found: abc12345-0000-4000-8000-000000000001''],
            exit_code = 1\<rparr>"
proof -
  let ?c = "example_cache example_docs []"
  let ?d1 = "example_doc ''abc12345-0000-4000-8000-000000000001'' ''Weekly Sync''
               ''2026-01-05T10:00:00Z''"
  let ?c2 = "example_cache
            [example_doc ''abc12345-0000-4000-8000-000000000001-copy'' ''Weekly Sync''
               ''2026-01-05T10:00:00Z''] []"
  have docs: "getDocuments ?c = example_docs"
    by (simp add: example_cache_def getDocuments_def comp_def)
  have u: "length ''abc1'' < 36 \<and> filter (\<lambda>d. prefix ''abc1'' (doc_id d)) (getDocuments ?c) = [?d1]"
    unfolding docs by (simp add: example_docs_def example_doc_def)
  have m: "filter (\<lambda>d. prefix ''abc'' (doc_id d)) (getDocuments ?c) = example_docs"
    unfolding docs by (simp add: example_docs_def example_doc_def)
  have a: "length ''abc'' < 36 \<and> 1 < length (filter (\<lambda>d. prefix ''abc'' (doc_id d)) (getDocuments ?c))"
    unfolding m by (simp add: example_docs_def)
  have f: "36 \<le> length ''abc12345-0000-4000-8000-000000000001''"
    by simp
  have g1: "getDocument ?c ''abc12345-0000-4000-8000-000000000001'' = Some (Value ?d1)"
    by (simp add: example_docs_def example_cache_def example_doc_def getDocument_def
          Record_get_def)
  have g2: "getDocument ?c2 ''abc12345-0000-4000-8000-000000000001'' = None"
    by (simp add: example_cache_def example_doc_def getDocument_def Record_get_def
          Object_prototype_names_def)
  have lines: "join nl (map (\<lambda>m. ''  '' @ take 12 (doc_id m) @ '' - '' @ title m) example_docs)
        = ''  abc12345-000 - Weekly Sync'' @ nl @ ''  abc99999-000 - Roadmap Review''"
    by (simp add: example_docs_def example_doc_def)
  note r1 = prefix_resolution [of "''abc1''" ?c ?d1 example_host True]
  note r2 = prefix_resolution [of "''abc''" ?c ?d1 example_host True]
  note r3 = prefix_resolution [of "''abc12345-0000-4000-8000-000000000001''" ?c ?d1 example_host True]
  note r4 = prefix_resolution [of "''abc12345-0000-4000-8000-000000000001''" ?c2 ?d1 example_host True]
  have p1: "showMeeting_lookup ?c ''abc1'' = Inr (Value ?d1)
            \<and> exportMeeting_lookup ?c ''abc1'' = Inr (Value ?d1)"
    using r1 u by blast
  have p2: "showMeeting example_host ?c ''abc'' True
     = \<lparr>printed = [],
        errors = [''Multiple meetings match '' @ dq @ ''abc'' @ dq @ ''. Be more specific:'' @ nl
                  @ join nl (map (\<lambda>m. ''  '' @ take 12 (doc_id m) @ '' - '' @ title m)
                                (filter (\<lambda>d. prefix ''abc'' (doc_id d)) (getDocuments ?c)))],
        exit_code = 1\<rparr>
     \<and> exportMeeting_lookup ?c ''abc'' = showMeeting_lookup ?c ''abc''
     \<and> showMeeting_lookup ?c ''abc'' = Inl \<lparr>printed = [],
        errors = [''Multiple meetings match '' @ dq @ ''abc'' @ dq @ ''. Be more specific:'' @ nl
                  @ join nl (map (\<lambda>m. ''  '' @ take 12 (doc_id m) @ '' - '' @ title m)
                                (filter (\<lambda>d. prefix ''abc'' (doc_id d)) (getDocuments ?c)))],
        exit_code = 1\<rparr>"
    using r2 a by blast
  have p3: "showMeeting_lookup ?c ''abc12345-0000-4000-8000-000000000001'' = Inr (Value ?d1)"
    using r3 f g1 by simp
  have p4: "exportMeeting_lookup ?c2 ''abc12345-0000-4000-8000-000000000001''
     = Inl \<lparr>printed = [],
            errors = [''Meeting not found: abc12345-0000-4000-8000-000000000001''],
            exit_code = 1\<rparr>"
    using r4 f g2 by simp
  show ?thesis
    using p1 p2 p3 p4 unfolding m lines by simp
qed

section \<open>The transcript of a document without one\<close>

lemma getTranscript_absent_own:
  assumes "\<forall>ts. Option.bind (Option.bind (data c) state) transcripts = Some ts \<longrightarrow>
              documentId \<notin> fst ` set ts"
    and "documentId \<notin> set Object_prototype_names"
  shows "getTranscript c documentId = Value []"
proof (cases "Option.bind (Option.bind (data c) state) transcripts")
  case None
  then show ?thesis by (simp add: getTranscript_def)
next
  case (Some ts)
  with assms(1) have "documentId \<notin> fst ` set ts" by simp
  then have "map_of ts documentId = None" by (simp add: map_of_eq_None_iff)
  then have "Record_get ts documentId = None"
    using assms(2) by (rule Record_get_absent)
  with Some show ?thesis by (simp add: getTranscript_def)
qed

text \<open>
  C5. For an identifier that is not a key of the transcripts mapping, \<open>getTranscript\<close> is
  to return the empty sequence. The code does so for every such identifier but the
  twelve that name a property of \<open>Object.prototype\<close>: for those the lookup finds the
  inherited function, which is truthy, and \<open>|| []\<close> lets it through. Here the snapshot
  has one document, whose \<open>id\<close> is \<open>constructor\<close>, and an empty transcripts mapping:
  \<open>getTranscript\<close> returns the inherited \<open>constructor\<close>, not the empty sequence, and
  \<open>show constructor --transcript\<close> ends in the \<open>TypeError\<close> that \<open>formatTranscript\<close> throws
  on it.
\<close>

theorem getTranscript_inherited_property:
  "getTranscript (example_cache [constructor_doc] []) ''constructor'' = Inherited ''constructor''
   \<and> showMeeting example_host (example_cache [constructor_doc] []) ''constructor'' True
       = \<lparr>printed = [''# Odd'' @ nl @ nl @ ''**ID:** constructor'' @ nl
                       @ ''**Date:** 1/5/2026, 10:00:00 AM'',
                     nl @ ''## Transcript'' @ nl],
          errors = [''TypeError: segments.sort is not a function''],
          exit_code = 1\<rparr>"
proof
  show t: "getTranscript (example_cache [constructor_doc] []) ''constructor''
             = Inherited ''constructor''"
    by (simp add: getTranscript_def example_cache_def Record_get_def Object_prototype_names_def)
  have l: "showMeeting_lookup (example_cache [constructor_doc] []) ''constructor''
             = Inr (Value constructor_doc)"
    by (simp add: showMeeting_lookup_def getDocuments_def example_cache_def constructor_doc_def
          example_doc_def)
  have k: "id_key (Value constructor_doc) = ''constructor''"
    by (simp add: id_key_def constructor_doc_def example_doc_def)
  have f: "formatTranscript_value example_host (Inherited ''constructor'')
             = Inl ''TypeError: segments.sort is not a function''"
    by (simp add: formatTranscript_value_def inherited_length_def)
  have d: "formatDocument_value example_host (Value constructor_doc) True
             = ''# Odd'' @ nl @ nl @ ''**ID:** constructor'' @ nl
               @ ''**Date:** 1/5/2026, 10:00:00 AM''"
    by (simp add: formatDocument_value_def formatDocument_def formatDocument_lines_def
          constructor_doc_def example_doc_def example_host_def created_time_def)
  show "showMeeting example_host (example_cache [constructor_doc] []) ''constructor'' True
       = \<lparr>printed = [''# Odd'' @ nl @ nl @ ''**ID:** constructor'' @ nl
                       @ ''**Date:** 1/5/2026, 10:00:00 AM'',
                     nl @ ''## Transcript'' @ nl],
          errors = [''TypeError: segments.sort is not a function''],
          exit_code = 1\<rparr>"
    by (simp add: showMeeting_def Let_def l k t f d)
qed

section \<open>Searching\<close>




text \<open>
  C8. The empty query matches every document: the empty string occurs in every title,
  so \<open>searchDocuments\<close> returns the whole of \<open>getDocuments\<close>, in its order.
\<close>

theorem search_empty_query:
  "searchDocuments c [] = getDocuments c"
  by (simp add: searchDocuments_def toLowerCase_def String_includes_Nil)

section \<open>Recent documents\<close>

lemma getRecentDocuments_sorted:
  assumes "Date_minusDays H (Date_now H) days = Some k"
  shows "getRecentDocuments H c days =
     sort_key (\<lambda>d. - time_key (created_time H) d)
       (filter (\<lambda>d. case created_time H d of None \<Rightarrow> False | Some t \<Rightarrow> k \<le> t) (getDocuments c))"
proof -
  let ?keep = "filter (\<lambda>d. case created_time H d of None \<Rightarrow> False | Some t \<Rightarrow> k \<le> t)
                 (getDocuments c)"
  have "\<forall>d\<in>set ?keep. created_time H d \<noteq> None"
    by (auto split: option.splits)
  then have "Array_sort (\<lambda>a b. num_minus (created_time H b) (created_time H a)) ?keep
             = sort_key (\<lambda>d. - time_key (created_time H) d) ?keep"
    by (rule Array_sort_desc)
  moreover have "(\<lambda>doc. case created_time H doc of None \<Rightarrow> False
                    | Some t \<Rightarrow> (case Some k of None \<Rightarrow> False | Some k' \<Rightarrow> k' \<le> t))
                 = (\<lambda>d. case created_time H d of None \<Rightarrow> False | Some t \<Rightarrow> k \<le> t)"
    by (rule ext) (simp split: option.split)
  ultimately show ?thesis
    unfolding getRecentDocuments_def Let_def assms by simp
qed

lemma recent_filter:
  "(case tm d of None \<Rightarrow> False | Some t \<Rightarrow> k \<le> t) = (\<exists>t. tm d = Some t \<and> (k::int) \<le> t)"
  by (cases "tm d") simp_all

text \<open>
  C4, as the code has it. When the cutoff (the current time moved back by \<open>days\<close> days) is
  a valid date, \<open>getRecentDocuments\<close> returns exactly the documents whose creation
  timestamp parses and is at or after the cutoff, each as often as \<open>getDocuments\<close> has
  it; nothing bounds the timestamp from above. The list is in descending order of
  creation time, documents with equal creation times next to each other.
\<close>

theorem getRecentDocuments_window:
  assumes "Date_minusDays H (Date_now H) days = Some k"
  shows "mset (getRecentDocuments H c days)
           = filter_mset (\<lambda>d. \<exists>t. created_time H d = Some t \<and> k \<le> t) (mset (getDocuments c))
    \<and> sorted_wrt (\<lambda>a b. time_key (created_time H) a \<ge> time_key (created_time H) b)
         (getRecentDocuments H c days)"
proof
  show "mset (getRecentDocuments H c days)
           = filter_mset (\<lambda>d. \<exists>t. created_time H d = Some t \<and> k \<le> t) (mset (getDocuments c))"
    unfolding getRecentDocuments_sorted [OF assms] recent_filter by simp
  have "sorted (map (\<lambda>d. - time_key (created_time H) d) (getRecentDocuments H c days))"
    unfolding getRecentDocuments_sorted [OF assms] by (rule sorted_sort_key)
  then show "sorted_wrt (\<lambda>a b. time_key (created_time H) a \<ge> time_key (created_time H) b)
         (getRecentDocuments H c days)"
    by (simp add: sorted_map)
qed


theorem getRecentDocuments_window_witness:
  "Date_minusDays example_host (Date_now example_host) 7 = Some 1767182400000
   \<and> mset (getRecentDocuments example_host (example_cache example_recent_docs []) 7)
       = mset [example_doc ''abc12345-0000-4000-8000-000000000001'' ''Weekly Sync''
                 ''2026-01-05T10:00:00Z'',
               example_doc ''abc55555-0000-4000-8000-000000000005'' ''Planning''
                 ''2026-01-10T08:00:00Z'',
               example_doc ''abc66666-0000-4000-8000-000000000006'' ''Standup''
                 ''2026-01-05T10:00:00Z'']
   \<and> sorted_wrt (\<lambda>a b. time_key (created_time example_host) a
                           \<ge> time_key (created_time example_host) b)
         (getRecentDocuments example_host (example_cache example_recent_docs []) 7)"
proof -
  have h: "Date_minusDays example_host (Date_now example_host) 7 = Some 1767182400000"
    by (simp add: example_host_def)
  have docs: "getDocuments (example_cache example_recent_docs []) = example_recent_docs"
    by (simp add: example_cache_def getDocuments_def comp_def)
  have t: "created_time example_host (example_doc i x ''2025-12-01T08:00:00Z'') = Some 1764576000000"
          "created_time example_host (example_doc i x ''2026-01-05T10:00:00Z'') = Some 1767607200000"
          "created_time example_host (example_doc i x ''2026-01-10T08:00:00Z'') = Some 1768032000000"
          "created_time example_host (example_doc i x ''yesterday'') = None"
    for i x
    by (simp_all add: created_time_def example_doc_def example_host_def)
  have f: "filter_mset (\<lambda>d. \<exists>t. created_time example_host d = Some t \<and> 1767182400000 \<le> t)
             (mset example_recent_docs)
       = mset [example_doc ''abc12345-0000-4000-8000-000000000001'' ''Weekly Sync''
                 ''2026-01-05T10:00:00Z'',
               example_doc ''abc55555-0000-4000-8000-000000000005'' ''Planning''
                 ''2026-01-10T08:00:00Z'',
               example_doc ''abc66666-0000-4000-8000-000000000006'' ''Standup''
                 ''2026-01-05T10:00:00Z'']"
    by (simp add: example_recent_docs_def t)
  show ?thesis
    using getRecentDocuments_window [OF h, of "example_cache example_recent_docs []"] h
    unfolding docs f by simp
qed

text \<open>
  The claim as the specification has it, a list in strictly descending order with the
  current instant as the upper bound, fails on this snapshot: two of the documents
  returned were created at the same instant, and the first was created three days
  after the current time.
\<close>

theorem getRecentDocuments_window_counterexample:
  "getRecentDocuments example_host (example_cache example_recent_docs []) 7
     = [example_doc ''abc55555-0000-4000-8000-000000000005'' ''Planning'' ''2026-01-10T08:00:00Z'',
        example_doc ''abc12345-0000-4000-8000-000000000001'' ''Weekly Sync'' ''2026-01-05T10:00:00Z'',
        example_doc ''abc66666-0000-4000-8000-000000000006'' ''Standup'' ''2026-01-05T10:00:00Z'']
   \<and> created_time example_host
         (example_doc ''abc12345-0000-4000-8000-000000000001'' ''Weekly Sync'' ''2026-01-05T10:00:00Z'')
       = Some 1767607200000
   \<and> created_time example_host
         (example_doc ''abc66666-0000-4000-8000-000000000006'' ''Standup'' ''2026-01-05T10:00:00Z'')
       = Some 1767607200000
   \<and> created_time example_host
         (example_doc ''abc55555-0000-4000-8000-000000000005'' ''Planning'' ''2026-01-10T08:00:00Z'')
       = Some 1768032000000
   \<and> Date_now example_host = 1767787200000"
proof -
  have docs: "getDocuments (example_cache example_recent_docs []) = example_recent_docs"
    by (simp add: example_cache_def getDocuments_def comp_def)
  have t: "created_time example_host (example_doc i x ''2025-12-01T08:00:00Z'') = Some 1764576000000"
          "created_time example_host (example_doc i x ''2026-01-05T10:00:00Z'') = Some 1767607200000"
          "created_time example_host (example_doc i x ''2026-01-10T08:00:00Z'') = Some 1768032000000"
          "created_time example_host (example_doc i x ''yesterday'') = None"
    for i x
    by (simp_all add: created_time_def example_doc_def example_host_def)
  have c: "Date_minusDays example_host (Date_now example_host) 7 = Some 1767182400000"
    by (simp add: example_host_def)
  have n: "Date_now example_host = 1767787200000"
    by (simp add: example_host_def)
  have "getRecentDocuments example_host (example_cache example_recent_docs []) 7
     = [example_doc ''abc55555-0000-4000-8000-000000000005'' ''Planning'' ''2026-01-10T08:00:00Z'',
        example_doc ''abc12345-0000-4000-8000-000000000001'' ''Weekly Sync'' ''2026-01-05T10:00:00Z'',
        example_doc ''abc66666-0000-4000-8000-000000000006'' ''Standup'' ''2026-01-05T10:00:00Z'']"
    unfolding getRecentDocuments_def Let_def docs c
    by (simp add: example_recent_docs_def t Array_sort_def num_minus_def cmp_sign_def)
  then show ?thesis using t n by simp
qed

section \<open>The participants of a formatted document\<close>

lemma attendee_names_map:
  "attendees p = Some as \<Longrightarrow>
   formatDocument_attendees p =
     map (\<lambda>a. js_or (resolved_fullName a) (js_or (email a) ''Unknown'')) as"
proof -
  assume a: "attendees p = Some as"
  have "js_or x (js_or y ''Unknown'') \<noteq> []" for x y
    by (simp add: js_or_def split: option.split)
  then have "filter (\<lambda>s. s \<noteq> [])
               (map (\<lambda>a. js_or (resolved_fullName a) (js_or (email a) ''Unknown'')) as)
             = map (\<lambda>a. js_or (resolved_fullName a) (js_or (email a) ''Unknown'')) as"
    by (simp add: filter_id_conv)
  with a show ?thesis by (simp add: formatDocument_attendees_def)
qed

text \<open>
  C3, as the code has it. Every attendee has an entry in the participant list, in the
  order of the attendees: the resolved full name when there is a non-empty one, else
  the email when there is a non-empty one, else the placeholder \<open>Unknown\<close>. No attendee
  is left out, and when there is at least one attendee the fifth line of the document
  is the list joined by commas.
\<close>

theorem formatDocument_participants:
  assumes "doc_people doc = Some p" and "attendees p = Some as"
  shows "length (formatDocument_attendees p) = length as
    \<and> (\<forall>i<length as.
          (\<forall>n. resolved_fullName (as ! i) = Some n \<and> n \<noteq> [] \<longrightarrow>
               formatDocument_attendees p ! i = n)
        \<and> (\<forall>e. \<not> truthy (resolved_fullName (as ! i)) \<and> email (as ! i) = Some e \<and> e \<noteq> [] \<longrightarrow>
               formatDocument_attendees p ! i = e)
        \<and> (\<not> truthy (resolved_fullName (as ! i)) \<and> \<not> truthy (email (as ! i)) \<longrightarrow>
               formatDocument_attendees p ! i = ''Unknown''))
    \<and> (as \<noteq> [] \<longrightarrow>
          formatDocument_lines H doc includeNotes ! 4
            = ''**Participants:** '' @ join '', '' (formatDocument_attendees p))"
proof (intro conjI allI impI)
  show "length (formatDocument_attendees p) = length as"
    using assms(2) by (simp add: attendee_names_map)
next
  fix i n
  assume "i < length as" and "resolved_fullName (as ! i) = Some n \<and> n \<noteq> []"
  then show "formatDocument_attendees p ! i = n"
    using assms(2) by (simp add: attendee_names_map js_or_def)
next
  fix i e
  assume "i < length as"
    and "\<not> truthy (resolved_fullName (as ! i)) \<and> email (as ! i) = Some e \<and> e \<noteq> []"
  then show "formatDocument_attendees p ! i = e"
    using assms(2) by (simp add: attendee_names_map js_or_def truthy_def split: option.splits)
next
  fix i
  assume "i < length as"
    and "\<not> truthy (resolved_fullName (as ! i)) \<and> \<not> truthy (email (as ! i))"
  then show "formatDocument_attendees p ! i = ''Unknown''"
    using assms(2) by (simp add: attendee_names_map js_or_def truthy_def split: option.splits)
next
  assume "as \<noteq> []"
  then have "length (formatDocument_attendees p) > 0"
    using assms(2) by (simp add: attendee_names_map)
  then show "formatDocument_lines H doc includeNotes ! 4
            = ''**Participants:** '' @ join '', '' (formatDocument_attendees p)"
    using assms(1) by (simp add: formatDocument_lines_def Let_def)
qed

theorem formatDocument_participants_witness:
  "formatDocument_attendees example_people = [''Ada Lovelace'', ''bob@example.com'', ''Unknown'']
   \<and> formatDocument_lines example_host
         ((example_doc ''abc12345-0000-4000-8000-000000000001'' ''Weekly Sync''
             ''2026-01-05T10:00:00Z'')\<lparr>doc_people := Some example_people\<rparr>) True ! 4
       = ''**Participants:** Ada Lovelace, bob@example.com, Unknown''"
proof -
  let ?d = "(example_doc ''abc12345-0000-4000-8000-000000000001'' ''Weekly Sync''
             ''2026-01-05T10:00:00Z'')\<lparr>doc_people := Some example_people\<rparr>"
  let ?as = "[example_person (Some ''Ada Lovelace'') (Some ''ada@example.com''),
              example_person None (Some ''bob@example.com''),
              example_person None None]"
  have h1: "doc_people ?d = Some example_people" by simp
  have h2: "attendees example_people = Some ?as" by (simp add: example_people_def)
  note t = formatDocument_participants [OF h1 h2, of example_host True]
  have l: "length (formatDocument_attendees example_people) = 3"
    using t by simp
  have e0: "formatDocument_attendees example_people ! 0 = ''Ada Lovelace''"
    using t by (simp add: resolved_fullName_def example_person_def)
  have "\<not> truthy (resolved_fullName (?as ! 1)) \<and> email (?as ! 1) = Some ''bob@example.com''
         \<and> ''bob@example.com'' \<noteq> []"
    by (simp add: resolved_fullName_def truthy_def example_person_def)
  then have e1: "formatDocument_attendees example_people ! 1 = ''bob@example.com''"
    using t by (metis One_nat_def length_Cons lessI less_Suc_eq list.size(3))
  have "\<not> truthy (resolved_fullName (?as ! 2)) \<and> \<not> truthy (email (?as ! 2))"
    by (simp add: resolved_fullName_def truthy_def example_person_def)
  then have e2: "formatDocument_attendees example_people ! 2 = ''Unknown''"
    using t by simp
  have a: "formatDocument_attendees example_people = [''Ada Lovelace'', ''bob@example.com'', ''Unknown'']"
  proof -
    have "\<exists>x y z. formatDocument_attendees example_people = [x, y, z]"
      using l by (auto simp: numeral_3_eq_3 length_Suc_conv)
    then obtain x y z where xyz: "formatDocument_attendees example_people = [x, y, z]"
      by blast
    with e0 e1 e2 show ?thesis by simp
  qed
  then show ?thesis using t by simp
qed

text \<open>
  The specification has an attendee with neither a name nor an email dropped from the
  list. On the third attendee of this document the code writes \<open>Unknown\<close> instead.
\<close>

theorem formatDocument_participants_counterexample:
  "resolved_fullName (example_person None None) = None
   \<and> email (example_person None None) = None
   \<and> formatDocument_attendees example_people = [''Ada Lovelace'', ''bob@example.com'', ''Unknown'']
   \<and> spec_participants example_people = [''Ada Lovelace'', ''bob@example.com'']
   \<and> formatDocument example_host
         ((example_doc ''abc12345-0000-4000-8000-000000000001'' ''Weekly Sync''
             ''2026-01-05T10:00:00Z'')\<lparr>doc_people := Some example_people\<rparr>) False
       = ''# Weekly Sync'' @ nl @ nl
         @ ''**ID:** abc12345-0000-4000-8000-000000000001'' @ nl
         @ ''**Date:** 1/5/2026, 10:00:00 AM'' @ nl
         @ ''**Participants:** Ada Lovelace, bob@example.com, Unknown''"
  by (simp add: formatDocument_def formatDocument_lines_def formatDocument_attendees_def
        spec_participants_def example_people_def example_person_def example_doc_def
        example_host_def created_time_def resolved_fullName_def js_or_def)

section \<open>Formatting a transcript\<close>

text \<open>
  C2, as the code has it. \<open>formatTranscript\<close> sorts the caller's array in place. After the
  call the array holds the same segments as before, and when every start timestamp
  parses they stand in ascending order of start time, segments with equal start times
  in their former order. The array is left as it was exactly when it was in ascending
  order already.
\<close>

theorem formatTranscript_reorders_argument:
  "mset (snd (formatTranscript H segs)) = mset segs
   \<and> ((\<forall>s\<in>set segs. start_time H s \<noteq> None) \<longrightarrow>
        snd (formatTranscript H segs) = sort_key (time_key (start_time H)) segs
      \<and> (snd (formatTranscript H segs) = segs
           \<longleftrightarrow> sorted (map (time_key (start_time H)) segs)))"
proof (intro conjI impI)
  show "mset (snd (formatTranscript H segs)) = mset segs"
    by (simp add: formatTranscript_def Let_def mset_Array_sort)
next
  assume v: "\<forall>s\<in>set segs. start_time H s \<noteq> None"
  show s: "snd (formatTranscript H segs) = sort_key (time_key (start_time H)) segs"
    by (simp add: formatTranscript_sorted [OF v])
  show "snd (formatTranscript H segs) = segs \<longleftrightarrow> sorted (map (time_key (start_time H)) segs)"
    unfolding s by (rule sort_key_fixed)
qed


theorem formatTranscript_reorders_argument_witness:
  "mset (snd (formatTranscript example_host example_segments)) = mset example_segments
   \<and> snd (formatTranscript example_host example_segments)
       = [example_segment ''s1'' ''2026-01-06T09:30:00Z'' ''Hello'',
          example_segment ''s3'' ''2026-01-06T09:30:00Z'' ''Hi there'',
          example_segment ''s2'' ''2026-01-06T09:30:05Z'' ''Shall we start?'']
   \<and> snd (formatTranscript example_host (tl example_segments)) = tl example_segments"
proof -
  have t: "start_time example_host (example_segment i ''2026-01-06T09:30:05Z'' x) = Some 1767691805000"
          "start_time example_host (example_segment i ''2026-01-06T09:30:00Z'' x) = Some 1767691800000"
    for i x
    by (simp_all add: start_time_def example_segment_def example_host_def)
  have v: "\<forall>s\<in>set example_segments. start_time example_host s \<noteq> None"
    by (simp add: example_segments_def t)
  have v': "\<forall>s\<in>set (tl example_segments). start_time example_host s \<noteq> None"
    by (simp add: example_segments_def t)
  have k: "sort_key (time_key (start_time example_host)) example_segments
       = [example_segment ''s1'' ''2026-01-06T09:30:00Z'' ''Hello'',
          example_segment ''s3'' ''2026-01-06T09:30:00Z'' ''Hi there'',
          example_segment ''s2'' ''2026-01-06T09:30:05Z'' ''Shall we start?'']"
    by (simp add: example_segments_def time_key_def t)
  have o: "sorted (map (time_key (start_time example_host)) (tl example_segments))"
    by (simp add: example_segments_def time_key_def t)
  note r = formatTranscript_reorders_argument [of example_host example_segments]
  note r' = formatTranscript_reorders_argument [of example_host "tl example_segments"]
  have a: "mset (snd (formatTranscript example_host example_segments)) = mset example_segments"
    using r by (rule conjunct1)
  have b: "snd (formatTranscript example_host example_segments)
             = sort_key (time_key (start_time example_host)) example_segments"
    using r v by blast
  have c: "snd (formatTranscript example_host (tl example_segments)) = tl example_segments"
    using r' v' o by blast
  show ?thesis
  proof (intro conjI)
    show "mset (snd (formatTranscript example_host example_segments)) = mset example_segments"
      by (rule a)
    show "snd (formatTranscript example_host example_segments)
       = [example_segment ''s1'' ''2026-01-06T09:30:00Z'' ''Hello'',
          example_segment ''s3'' ''2026-01-06T09:30:00Z'' ''Hi there'',
          example_segment ''s2'' ''2026-01-06T09:30:05Z'' ''Shall we start?'']"
      using b k by simp
    show "snd (formatTranscript example_host (tl example_segments)) = tl example_segments"
      by (rule c)
  qed
qed

text \<open>
  The claim as the specification has it, that the caller's sequence is in the same order
  after the call as before, fails on a transcript stored out of order.
\<close>

theorem formatTranscript_reorders_argument_counterexample:
  "snd (formatTranscript example_host
          [example_segment ''s2'' ''2026-01-06T09:30:05Z'' ''Shall we start?'',
           example_segment ''s1'' ''2026-01-06T09:30:00Z'' ''Hello''])
     = [example_segment ''s1'' ''2026-01-06T09:30:00Z'' ''Hello'',
        example_segment ''s2'' ''2026-01-06T09:30:05Z'' ''Shall we start?'']
   \<and> snd (formatTranscript example_host
          [example_segment ''s2'' ''2026-01-06T09:30:05Z'' ''Shall we start?'',
           example_segment ''s1'' ''2026-01-06T09:30:00Z'' ''Hello''])
     \<noteq> [example_segment ''s2'' ''2026-01-06T09:30:05Z'' ''Shall we start?'',
         example_segment ''s1'' ''2026-01-06T09:30:00Z'' ''Hello'']"
  by (simp add: formatTranscript_def Array_sort_def num_minus_def cmp_sign_def start_time_def
        example_segment_def example_host_def)

lemma time_key_eq:
  assumes "tm a \<noteq> None" and "tm b \<noteq> None" and "time_key tm a = time_key tm b"
  shows "tm a = tm b"
proof -
  from assms(1) obtain x where x: "tm a = Some x" by blast
  from assms(2) obtain y where y: "tm b = Some y" by blast
  from assms(3) x y have "x = y" by (simp add: time_key_def)
  with x y show ?thesis by simp
qed

lemma transcript_line_ties:
  assumes "start_time H a \<noteq> None" and "start_time H b \<noteq> None"
    and "time_key (start_time H) a = time_key (start_time H) b"
    and "seg_text a = seg_text b"
  shows "transcript_line H a = transcript_line H b"
proof -
  from assms(1,2,3) have "start_time H a = start_time H b"
    by (rule time_key_eq)
  with assms(4) show ?thesis by (simp add: transcript_line_def)
qed

lemma formatTranscript_perm:
  assumes v: "\<forall>s\<in>set segs. start_time H s \<noteq> None"
    and p: "mset segs' = mset segs"
    and t: "\<forall>a\<in>set segs. \<forall>b\<in>set segs.
              start_time H a = start_time H b \<longrightarrow> seg_text a = seg_text b"
  shows "fst (formatTranscript H segs') = fst (formatTranscript H segs)"
proof -
  from p have s: "set segs' = set segs" by (rule mset_eq_setD)
  with v have v': "\<forall>s\<in>set segs'. start_time H s \<noteq> None" by simp
  from p have "length segs' = length segs" by (rule mset_eq_length)
  then have e: "segs' = [] \<longleftrightarrow> segs = []" by (cases segs'; cases segs) simp_all
  have ties: "transcript_line H a = transcript_line H b"
    if "a \<in> set segs'" "b \<in> set segs'"
      "time_key (start_time H) a = time_key (start_time H) b" for a b
  proof -
    from that(1,2) s have ab: "a \<in> set segs" "b \<in> set segs" by simp_all
    from ab v have va: "start_time H a \<noteq> None" and vb: "start_time H b \<noteq> None" by blast+
    from va vb that(3) have "start_time H a = start_time H b" by (rule time_key_eq)
    with t ab have "seg_text a = seg_text b" by blast
    with va vb that(3) show ?thesis by (rule transcript_line_ties)
  qed
  have m: "map (transcript_line H) (sort_key (time_key (start_time H)) segs')
        = map (transcript_line H) (sort_key (time_key (start_time H)) segs)"
    using p ties by (rule map_sort_key_perm)
  show ?thesis
    unfolding formatTranscript_sorted [OF v] formatTranscript_sorted [OF v'] m e
    by simp
qed

text \<open>
  C9, as the code has it. The empty sequence gives the sentence
  \<open>No transcript available.\<close> For a sequence that is not empty and whose start timestamps
  all parse, the result is one line \<open>[local time] text\<close> per segment, the lines joined by
  line feeds, in ascending order of start time; segments with the same start time keep
  the order they came in. So two arrangements of the same segments give the same
  string provided segments that share a start time also share their text.
\<close>

theorem formatTranscript_output:
  "fst (formatTranscript H []) = ''No transcript available.''
   \<and> (segs \<noteq> [] \<and> (\<forall>s\<in>set segs. start_time H s \<noteq> None) \<longrightarrow>
        fst (formatTranscript H segs)
          = join nl (map (transcript_line H) (sort_key (time_key (start_time H)) segs))
      \<and> sorted (map (time_key (start_time H)) (sort_key (time_key (start_time H)) segs))
      \<and> mset (sort_key (time_key (start_time H)) segs) = mset segs)
   \<and> ((\<forall>s\<in>set segs. start_time H s \<noteq> None) \<and> mset segs' = mset segs
        \<and> (\<forall>a\<in>set segs. \<forall>b\<in>set segs.
              start_time H a = start_time H b \<longrightarrow> seg_text a = seg_text b) \<longrightarrow>
        fst (formatTranscript H segs') = fst (formatTranscript H segs))"
proof (intro conjI impI)
  show "fst (formatTranscript H []) = ''No transcript available.''"
    by (simp add: formatTranscript_def)
next
  assume a: "segs \<noteq> [] \<and> (\<forall>s\<in>set segs. start_time H s \<noteq> None)"
  then have v: "\<forall>s\<in>set segs. start_time H s \<noteq> None" by (rule conjunct2)
  from a have n: "segs \<noteq> []" by (rule conjunct1)
  show "fst (formatTranscript H segs)
          = join nl (map (transcript_line H) (sort_key (time_key (start_time H)) segs))"
    unfolding formatTranscript_sorted [OF v] using n by simp
  show "sorted (map (time_key (start_time H)) (sort_key (time_key (start_time H)) segs))"
    by (rule sorted_sort_key)
  show "mset (sort_key (time_key (start_time H)) segs) = mset segs"
    by (rule mset_sort)
next
  assume a: "(\<forall>s\<in>set segs. start_time H s \<noteq> None) \<and> mset segs' = mset segs
        \<and> (\<forall>a\<in>set segs. \<forall>b\<in>set segs.
              start_time H a = start_time H b \<longrightarrow> seg_text a = seg_text b)"
  from a have v: "\<forall>s\<in>set segs. start_time H s \<noteq> None" by (rule conjunct1)
  from a have p: "mset segs' = mset segs" by (rule conjunct2 [THEN conjunct1])
  from a have t: "\<forall>a\<in>set segs. \<forall>b\<in>set segs.
              start_time H a = start_time H b \<longrightarrow> seg_text a = seg_text b"
    by (rule conjunct2 [THEN conjunct2])
  from v p t show "fst (formatTranscript H segs') = fst (formatTranscript H segs)"
    by (rule formatTranscript_perm)
qed

theorem formatTranscript_output_witness:
  "fst (formatTranscript example_host (tl example_segments))
     = ''[9:30:00 AM] Hello'' @ nl @ ''[9:30:00 AM] Hi there''
   \<and> fst (formatTranscript example_host
            [example_segment ''s2'' ''2026-01-06T09:30:05Z'' ''Shall we start?'',
             example_segment ''s1'' ''2026-01-06T09:30:00Z'' ''Hello''])
     = fst (formatTranscript example_host
            [example_segment ''s1'' ''2026-01-06T09:30:00Z'' ''Hello'',
             example_segment ''s2'' ''2026-01-06T09:30:05Z'' ''Shall we start?''])
   \<and> fst (formatTranscript example_host
            [example_segment ''s1'' ''2026-01-06T09:30:00Z'' ''Hello'',
             example_segment ''s2'' ''2026-01-06T09:30:05Z'' ''Shall we start?''])
     = ''[9:30:00 AM] Hello'' @ nl @ ''[9:30:05 AM] Shall we start?''"
proof -
  let ?a = "example_segment ''s1'' ''2026-01-06T09:30:00Z'' ''Hello''"
  let ?b = "example_segment ''s2'' ''2026-01-06T09:30:05Z'' ''Shall we start?''"
  have t: "start_time example_host (example_segment i ''2026-01-06T09:30:05Z'' x) = Some 1767691805000"
          "start_time example_host (example_segment i ''2026-01-06T09:30:00Z'' x) = Some 1767691800000"
    for i x
    by (simp_all add: start_time_def example_segment_def example_host_def)
  have l: "transcript_line example_host (example_segment i ''2026-01-06T09:30:05Z'' x)
             = ''[9:30:05 AM] '' @ x"
          "transcript_line example_host (example_segment i ''2026-01-06T09:30:00Z'' x)
             = ''[9:30:00 AM] '' @ x"
    for i x
    by (simp_all add: transcript_line_def t) (simp_all add: example_segment_def example_host_def)
  have h1: "tl example_segments \<noteq> [] \<and> (\<forall>s\<in>set (tl example_segments). start_time example_host s \<noteq> None)"
    by (simp add: example_segments_def t)
  have k1: "sort_key (time_key (start_time example_host)) (tl example_segments) = tl example_segments"
    by (simp add: example_segments_def time_key_def t)
  have h2: "[?a, ?b] \<noteq> [] \<and> (\<forall>s\<in>set [?a, ?b]. start_time example_host s \<noteq> None)"
    by (simp add: t)
  have k2: "sort_key (time_key (start_time example_host)) [?a, ?b] = [?a, ?b]"
    by (simp add: time_key_def t)
  have h3: "(\<forall>s\<in>set [?a, ?b]. start_time example_host s \<noteq> None) \<and> mset [?b, ?a] = mset [?a, ?b]
        \<and> (\<forall>a\<in>set [?a, ?b]. \<forall>b\<in>set [?a, ?b].
              start_time example_host a = start_time example_host b \<longrightarrow> seg_text a = seg_text b)"
    by (simp add: t)
  note r1 = formatTranscript_output [of example_host "tl example_segments" "[]"]
  note r2 = formatTranscript_output [of example_host "[?a, ?b]" "[?b, ?a]"]
  have p1: "fst (formatTranscript example_host (tl example_segments))
          = join nl (map (transcript_line example_host)
               (sort_key (time_key (start_time example_host)) (tl example_segments)))"
    using r1 h1 by blast
  have p2: "fst (formatTranscript example_host [?a, ?b])
          = join nl (map (transcript_line example_host)
               (sort_key (time_key (start_time example_host)) [?a, ?b]))"
    using r2 h2 by blast
  have p3: "fst (formatTranscript example_host [?b, ?a]) = fst (formatTranscript example_host [?a, ?b])"
    using r2 h3 by blast
  show ?thesis
  proof (intro conjI)
    show "fst (formatTranscript example_host (tl example_segments))
            = ''[9:30:00 AM] Hello'' @ nl @ ''[9:30:00 AM] Hi there''"
      unfolding p1 k1 by (simp add: example_segments_def l)
    show "fst (formatTranscript example_host [?b, ?a]) = fst (formatTranscript example_host [?a, ?b])"
      by (rule p3)
    show "fst (formatTranscript example_host [?a, ?b])
            = ''[9:30:00 AM] Hello'' @ nl @ ''[9:30:05 AM] Shall we start?''"
      unfolding p2 k2 by (simp add: l)
  qed
qed

text \<open>
  The claim as the specification has it, that any arrangement of the same segments gives
  the same string, fails on two segments with the same start time and different text:
  reversing them reverses the two lines.
\<close>

theorem formatTranscript_output_counterexample:
  "fst (formatTranscript example_host
          [example_segment ''s1'' ''2026-01-06T09:30:00Z'' ''Hello'',
           example_segment ''s3'' ''2026-01-06T09:30:00Z'' ''Hi there''])
     = ''[9:30:00 AM] Hello'' @ nl @ ''[9:30:00 AM] Hi there''
   \<and> fst (formatTranscript example_host
          (rev [example_segment ''s1'' ''2026-01-06T09:30:00Z'' ''Hello'',
                example_segment ''s3'' ''2026-01-06T09:30:00Z'' ''Hi there'']))
     = ''[9:30:00 AM] Hi there'' @ nl @ ''[9:30:00 AM] Hello''
   \<and> fst (formatTranscript example_host
          (rev [example_segment ''s1'' ''2026-01-06T09:30:00Z'' ''Hello'',
                example_segment ''s3'' ''2026-01-06T09:30:00Z'' ''Hi there'']))
     \<noteq> fst (formatTranscript example_host
          [example_segment ''s1'' ''2026-01-06T09:30:00Z'' ''Hello'',
           example_segment ''s3'' ''2026-01-06T09:30:00Z'' ''Hi there''])"
  by (simp add: formatTranscript_def Array_sort_def num_minus_def cmp_sign_def start_time_def
        transcript_line_def example_segment_def example_host_def)

section \<open>Loading the cache\<close>

lemma data_string:
  "outer \<noteq> JNull \<Longrightarrow> js_get outer ''cache'' = Some (JStr s) \<Longrightarrow>
   GranolaCache_data H outer = (case JSON_parse H s of None \<Rightarrow> Inl SyntaxError | Some v \<Rightarrow> Inr v)"
  by (cases outer) (simp_all add: GranolaCache_data_def)

lemma data_nested:
  "outer \<noteq> JNull \<Longrightarrow> js_get outer ''cache'' = Some v \<Longrightarrow> \<forall>s. v \<noteq> JStr s \<Longrightarrow>
   json_truthy (Some v) \<Longrightarrow> GranolaCache_data H outer = Inr v"
  by (cases outer; cases v) (simp_all add: GranolaCache_data_def)

lemma data_fallback:
  "outer \<noteq> JNull \<Longrightarrow> \<not> json_truthy (js_get outer ''cache'') \<Longrightarrow>
   js_get outer ''cache'' \<noteq> Some (JStr []) \<Longrightarrow> GranolaCache_data H outer = Inr outer"
  by (cases outer; cases "js_get outer ''cache''")
     (auto simp: GranolaCache_data_def json_truthy_def split: json.splits)

lemma documents_default:
  "\<not> json_truthy (opt_get (opt_get (Some d) ''state'') ''documents'') \<Longrightarrow> getDocuments_json d = []"
  by (cases "opt_get (opt_get (Some d) ''state'') ''documents''")
     (simp_all add: getDocuments_json_def Let_def)

text \<open>
  C6, as the code has it. For a top-level value other than \<open>null\<close>: when its \<open>cache\<close> field
  is a string, that string is parsed as JSON again and the result (or the parse error)
  is the outcome; when the field holds any other truthy value, that value is the data;
  and when the field is missing or falsy, the data is the top-level value itself.
  \<open>getDocuments\<close> returns the empty list whenever \<open>state\<close> or \<open>documents\<close> is missing or
  falsy and \<open>Object.values\<close> of the \<open>documents\<close> field otherwise, and the typed accessors
  return the empty list whenever a level above the mapping they read is missing.
\<close>

theorem loader_unwraps_cache:
  "(outer \<noteq> JNull \<longrightarrow>
      (\<forall>s. js_get outer ''cache'' = Some (JStr s) \<longrightarrow>
           GranolaCache_data H outer
             = (case JSON_parse H s of None \<Rightarrow> Inl SyntaxError | Some v \<Rightarrow> Inr v))
    \<and> (\<forall>v. js_get outer ''cache'' = Some v \<and> (\<forall>s. v \<noteq> JStr s) \<and> json_truthy (Some v) \<longrightarrow>
           GranolaCache_data H outer = Inr v)
    \<and> (\<not> json_truthy (js_get outer ''cache'') \<and> js_get outer ''cache'' \<noteq> Some (JStr []) \<longrightarrow>
           GranolaCache_data H outer = Inr outer))
   \<and> (\<not> json_truthy (opt_get (opt_get (Some d) ''state'') ''documents'') \<longrightarrow>
         getDocuments_json d = [])
   \<and> (\<forall>v. opt_get (opt_get (Some d) ''state'') ''documents'' = Some v \<and> json_truthy (Some v) \<longrightarrow>
         getDocuments_json d = Object_values v)
   \<and> (Option.bind (Option.bind (data c) state) documents = None \<longrightarrow> getDocuments c = [])
   \<and> (Option.bind (Option.bind (data c) state) transcripts = None \<longrightarrow> getTranscript c k = Value [])"
proof (intro conjI impI allI)
  fix s assume "outer \<noteq> JNull" and "js_get outer ''cache'' = Some (JStr s)"
  then show "GranolaCache_data H outer
             = (case JSON_parse H s of None \<Rightarrow> Inl SyntaxError | Some v \<Rightarrow> Inr v)"
    by (rule data_string)
next
  fix v assume o: "outer \<noteq> JNull"
    and a: "js_get outer ''cache'' = Some v \<and> (\<forall>s. v \<noteq> JStr s) \<and> json_truthy (Some v)"
  show "GranolaCache_data H outer = Inr v"
    by (rule data_nested) (use o a in blast)+
next
  assume o: "outer \<noteq> JNull"
    and a: "\<not> json_truthy (js_get outer ''cache'') \<and> js_get outer ''cache'' \<noteq> Some (JStr [])"
  show "GranolaCache_data H outer = Inr outer"
    by (rule data_fallback) (use o a in blast)+
next
  assume "\<not> json_truthy (opt_get (opt_get (Some d) ''state'') ''documents'')"
  then show "getDocuments_json d = []" by (rule documents_default)
next
  fix v
  assume "opt_get (opt_get (Some d) ''state'') ''documents'' = Some v \<and> json_truthy (Some v)"
  then show "getDocuments_json d = Object_values v"
    by (simp add: getDocuments_json_def Let_def)
next
  assume "Option.bind (Option.bind (data c) state) documents = None"
  then show "getDocuments c = []" by (simp add: getDocuments_def)
next
  assume "Option.bind (Option.bind (data c) state) transcripts = None"
  then show "getTranscript c k = Value []" by (simp add: getTranscript_def)
qed


theorem loader_unwraps_cache_witness:
  "GranolaCache_data example_host (JObj [(''cache'', JStr ''{}'')]) = Inr (JObj [])
   \<and> GranolaCache_data example_host (JObj [(''cache'', JStr ''{'')]) = Inl SyntaxError
   \<and> GranolaCache_data example_host
         (JObj [(''cache'', JObj [(''state'', JObj [(''documents'', JObj [(''d1'', JStr ''x'')])])])])
       = Inr (JObj [(''state'', JObj [(''documents'', JObj [(''d1'', JStr ''x'')])])])
   \<and> GranolaCache_data example_host (JObj [(''cache'', JNull), (''version'', JNum 3)])
       = Inr (JObj [(''cache'', JNull), (''version'', JNum 3)])
   \<and> getDocuments_json (JObj [(''state'', JObj [(''documents'', JNull)])]) = []
   \<and> getDocuments \<lparr>data = Some \<lparr>state = None, version = 3\<rparr>\<rparr> = []
   \<and> getTranscript \<lparr>data = None\<rparr> ''abc12345-0000-4000-8000-000000000001'' = Value []"
proof -
  let ?n = "JObj [(''state'', JObj [(''documents'', JObj [(''d1'', JStr ''x'')])])]"
  let ?o1 = "JObj [(''cache'', JStr ''{}'')]"
  let ?o2 = "JObj [(''cache'', JStr ''{'')]"
  let ?o3 = "JObj [(''cache'', ?n)]"
  let ?o4 = "JObj [(''cache'', JNull), (''version'', JNum 3)]"
  let ?d = "JObj [(''state'', JObj [(''documents'', JNull)])]"
  let ?c1 = "\<lparr>data = Some \<lparr>state = None, version = 3\<rparr>\<rparr>"
  let ?c2 = "\<lparr>data = None\<rparr> :: granola_cache"
  have g1: "js_get ?o1 ''cache'' = Some (JStr ''{}'')" by (simp add: js_get_def)
  have g2: "js_get ?o2 ''cache'' = Some (JStr ''{'')" by (simp add: js_get_def)
  have g3: "js_get ?o3 ''cache'' = Some ?n \<and> (\<forall>s. ?n \<noteq> JStr s) \<and> json_truthy (Some ?n)"
    by (simp add: js_get_def json_truthy_def)
  have g4: "\<not> json_truthy (js_get ?o4 ''cache'') \<and> js_get ?o4 ''cache'' \<noteq> Some (JStr [])"
    by (simp add: js_get_def json_truthy_def)
  have g5: "\<not> json_truthy (opt_get (opt_get (Some ?d) ''state'') ''documents'')"
    by (simp add: opt_get_def js_get_def json_truthy_def)
  have g6: "Option.bind (Option.bind (data ?c1) state) documents = None" by simp
  have g7: "Option.bind (Option.bind (data ?c2) state) transcripts = None" by simp
  have j1: "JSON_parse example_host ''{}'' = Some (JObj [])" by (simp add: example_host_def)
  have j2: "JSON_parse example_host ''{'' = None" by (simp add: example_host_def)
  have w1: "GranolaCache_data example_host ?o1 = Inr (JObj [])"
    using loader_unwraps_cache [of ?o1 example_host ?d ?c1] g1 j1 by simp
  have w2: "GranolaCache_data example_host ?o2 = Inl SyntaxError"
    using loader_unwraps_cache [of ?o2 example_host ?d ?c1] g2 j2 by simp
  have w3: "GranolaCache_data example_host ?o3 = Inr ?n"
    using loader_unwraps_cache [of ?o3 example_host ?d ?c1] g3 by blast
  have w4: "GranolaCache_data example_host ?o4 = Inr ?o4"
    using loader_unwraps_cache [of ?o4 example_host ?d ?c1] g4 by blast
  have w5: "getDocuments_json ?d = []"
    using loader_unwraps_cache [of ?o1 example_host ?d ?c1] g5 by blast
  have w6: "getDocuments ?c1 = []"
    using loader_unwraps_cache [of ?o1 example_host ?d ?c1] g6 by blast
  have w7: "getTranscript ?c2 ''abc12345-0000-4000-8000-000000000001'' = Value []"
    using loader_unwraps_cache [of ?o1 example_host ?d ?c2] g7 by blast
  show ?thesis using w1 w2 w3 w4 w5 w6 w7 by simp
qed

text \<open>
  The claim as the specification has it fails on a file whose top level has no \<open>cache\<close>
  field and whose \<open>documents\<close> field is an array. There is no nested value, and the
  loader takes the top-level value itself as the data; the malformed field does not
  default to empty, and \<open>getDocuments\<close> returns the elements of the array.
\<close>

theorem loader_unwraps_cache_counterexample:
  "js_get (JObj [(''state'', JObj [(''documents'', JArr [JNum 1, JNum 2])])]) ''cache'' = None
   \<and> GranolaCache_data example_host
         (JObj [(''state'', JObj [(''documents'', JArr [JNum 1, JNum 2])])])
       = Inr (JObj [(''state'', JObj [(''documents'', JArr [JNum 1, JNum 2])])])
   \<and> getDocuments_json (JObj [(''state'', JObj [(''documents'', JArr [JNum 1, JNum 2])])])
       = [JNum 1, JNum 2]"
  by (simp add: js_get_def GranolaCache_data_def getDocuments_json_def opt_get_def
        json_truthy_def Object_values_def)

section \<open>The command line of \<open>list\<close>\<close>

lemma parseInt_undefined: "parseInt ''undefined'' = None"
  by code_simp

lemma parseInt_zero: "parseInt ''0'' = Some 0"
  by code_simp

lemma parseInt_seven: "parseInt ''7'' = Some 7"
  by code_simp

lemma parseArgs_list_days:
  "v \<noteq> [] \<Longrightarrow> \<not> prefix ''-'' v \<Longrightarrow>
   parseArgs [''list'', ''--days'', v]
     = \<lparr>command = ''list'', positional = [], flags = [''days'' \<mapsto> FStr v]\<rparr>"
  by (simp add: parseArgs_def)

lemma main_never_zero_days: "main args thrown \<noteq> CallListMeetings 0"
  by (simp add: main_def Let_def split: option.split list.split flag_value.split)

lemma main_list_default:
  assumes "command (parseArgs args) = ''list''"
    and "\<not> flag_truthy (flags (parseArgs args) ''help'')"
    and "flags (parseArgs args) ''days'' = None
         \<or> parseInt (flag_ToString (flags (parseArgs args) ''days'')) = None
         \<or> parseInt (flag_ToString (flags (parseArgs args) ''days'')) = Some 0"
  shows "main args None = CallListMeetings 7"
proof -
  from assms(3) have "parseInt (flag_ToString (flags (parseArgs args) ''days'')) = None
         \<or> parseInt (flag_ToString (flags (parseArgs args) ''days'')) = Some 0"
    by (auto simp: flag_ToString_def parseInt_undefined)
  then show ?thesis
    using assms(1,2) by (auto simp: main_def Let_def)
qed

text \<open>
  C10. \<open>main\<close> passes \<open>parseInt(flags.days) || 7\<close> to \<open>listMeetings\<close>, and \<open>0\<close> is falsy. So
  the number of days is 7 when \<open>--days\<close> is absent, when its value does not parse as a
  number, and also when it parses to 0; \<open>list --days 0\<close> makes the very call that
  \<open>list --days 7\<close> makes, and no argument vector makes \<open>main\<close> call \<open>listMeetings\<close> with 0
  days.
\<close>

theorem list_days_zero_is_seven:
  "main args thrown \<noteq> CallListMeetings 0
   \<and> (command (parseArgs args) = ''list'' \<and> \<not> flag_truthy (flags (parseArgs args) ''help'')
        \<and> (flags (parseArgs args) ''days'' = None
           \<or> parseInt (flag_ToString (flags (parseArgs args) ''days'')) = None
           \<or> parseInt (flag_ToString (flags (parseArgs args) ''days'')) = Some 0)
       \<longrightarrow> main args None = CallListMeetings 7)
   \<and> main [''list'', ''--days'', ''0''] None = CallListMeetings 7
   \<and> main [''list'', ''--days'', ''0''] None = main [''list'', ''--days'', ''7''] None"
proof (intro conjI impI)
  show "main args thrown \<noteq> CallListMeetings 0"
    by (rule main_never_zero_days)
next
  assume a: "command (parseArgs args) = ''list'' \<and> \<not> flag_truthy (flags (parseArgs args) ''help'')
        \<and> (flags (parseArgs args) ''days'' = None
           \<or> parseInt (flag_ToString (flags (parseArgs args) ''days'')) = None
           \<or> parseInt (flag_ToString (flags (parseArgs args) ''days'')) = Some 0)"
  show "main args None = CallListMeetings 7"
    by (rule main_list_default) (use a in blast)+
next
  have p0: "parseArgs [''list'', ''--days'', ''0'']
     = \<lparr>command = ''list'', positional = [], flags = [''days'' \<mapsto> FStr ''0'']\<rparr>"
    by (rule parseArgs_list_days) simp_all
  have p7: "parseArgs [''list'', ''--days'', ''7'']
     = \<lparr>command = ''list'', positional = [], flags = [''days'' \<mapsto> FStr ''7'']\<rparr>"
    by (rule parseArgs_list_days) simp_all
  show z: "main [''list'', ''--days'', ''0''] None = CallListMeetings 7"
    unfolding main_def Let_def p0
    by (simp add: flag_truthy_def flag_ToString_def parseInt_zero)
  have "main [''list'', ''--days'', ''7''] None = CallListMeetings 7"
    unfolding main_def Let_def p7
    by (simp add: flag_truthy_def flag_ToString_def parseInt_seven)
  with z show "main [''list'', ''--days'', ''0''] None = main [''list'', ''--days'', ''7''] None"
    by simp
qed

theorem list_days_zero_is_seven_witness:
  "main [''list''] None = CallListMeetings 7
   \<and> main [''list'', ''--days'', ''soon''] None = CallListMeetings 7
   \<and> main [''list'', ''--days''] None = CallListMeetings 7
   \<and> main [''list'', ''--days'', ''000''] None = CallListMeetings 7
   \<and> main [''list'', ''--days'', ''30''] None = CallListMeetings 30"
proof -
  have p1: "parseArgs [''list''] = \<lparr>command = ''list'', positional = [], flags = Map.empty\<rparr>"
    by (simp add: parseArgs_def)
  have p2: "parseArgs [''list'', ''--days'', ''soon'']
     = \<lparr>command = ''list'', positional = [], flags = [''days'' \<mapsto> FStr ''soon'']\<rparr>"
    by (rule parseArgs_list_days) simp_all
  have p3: "parseArgs [''list'', ''--days'']
     = \<lparr>command = ''list'', positional = [], flags = [''days'' \<mapsto> FTrue]\<rparr>"
    by (simp add: parseArgs_def)
  have p4: "parseArgs [''list'', ''--days'', ''000'']
     = \<lparr>command = ''list'', positional = [], flags = [''days'' \<mapsto> FStr ''000'']\<rparr>"
    by (rule parseArgs_list_days) simp_all
  have p5: "parseArgs [''list'', ''--days'', ''30'']
     = \<lparr>command = ''list'', positional = [], flags = [''days'' \<mapsto> FStr ''30'']\<rparr>"
    by (rule parseArgs_list_days) simp_all
  have i2: "parseInt ''soon'' = None" by code_simp
  have i3: "parseInt ''true'' = None" by code_simp
  have i4: "parseInt ''000'' = Some 0" by code_simp
  have i5: "parseInt ''30'' = Some 30" by code_simp
  have w1: "main [''list''] None = CallListMeetings 7"
    using list_days_zero_is_seven [of "[''list'']" None]
    by (simp add: p1 flag_truthy_def)
  have w2: "main [''list'', ''--days'', ''soon''] None = CallListMeetings 7"
    using list_days_zero_is_seven [of "[''list'', ''--days'', ''soon'']" None]
    by (simp add: p2 flag_truthy_def flag_ToString_def i2)
  have w3: "main [''list'', ''--days''] None = CallListMeetings 7"
    using list_days_zero_is_seven [of "[''list'', ''--days'']" None]
    by (simp add: p3 flag_truthy_def flag_ToString_def i3)
  have w4: "main [''list'', ''--days'', ''000''] None = CallListMeetings 7"
    using list_days_zero_is_seven [of "[''list'', ''--days'', ''000'']" None]
    by (simp add: p4 flag_truthy_def flag_ToString_def i4)
  have w5: "main [''list'', ''--days'', ''30''] None = CallListMeetings 30"
    unfolding main_def Let_def p5
    by (simp add: flag_truthy_def flag_ToString_def i5)
  show ?thesis using w1 w2 w3 w4 w5 by simp
qed

end
